theory Spec2Isabelle
  imports Complex_Main "HOL-Library.AList"
begin

section \<open>Data model\<close>

text \<open>
  The pose-comparison engine of \<^verbatim>\<open>src/deps/default_analyzer.py\<close>, the component registry of
  \<^verbatim>\<open>src/deps/registry.py\<close>, the configuration of \<^verbatim>\<open>src/deps/default_config.py\<close> and the
  dependency container of \<^verbatim>\<open>src/deps/deps.py\<close>.

  Python floats are read as real numbers in the comparison of poses, which only subtracts,
  compares, counts, averages and applies \<open>exp\<close>: the properties below are those of the
  formulas, not of rounding. The angle between three points (\<^verbatim>\<open>calculate_angle\<close>) is left
  out, since its clamp, its bound \<^verbatim>\<open>1e-6\<close> and its behaviour on overflow are matters of
  double-precision arithmetic itself.

  A Python dict is an association list in insertion order; its keys are pairwise distinct,
  which the theorems about dicts assume where they need it. Python strings are byte strings in
  UTF-8 here, so the Chinese angle and limb names of \<^verbatim>\<open>src/constants.py\<close> are written byte
  by byte.
\<close>

datatype Landmark = Landmark (lm_x: real) (lm_y: real) (lm_z: real) (visibility: real)

type_synonym angle_dict = "(string \<times> real option) list"

record PoseData =
  landmarks :: "Landmark list"
  angles :: angle_dict

record DefaultAnalyzer =
  angle_threshold :: real

text \<open>\<^verbatim>\<open>d.get(name)\<close> on a dict whose values may be \<^verbatim>\<open>None\<close>: a missing key and a stored
  \<^verbatim>\<open>None\<close> both read as \<^verbatim>\<open>None\<close>.\<close>

definition dict_get :: "angle_dict \<Rightarrow> string \<Rightarrow> real option" where
  "dict_get d name = (case map_of d name of None \<Rightarrow> None | Some v \<Rightarrow> v)"

section \<open>Geometry kernel and pose comparison\<close>

subsection \<open>The tables of \<^verbatim>\<open>src/constants.py\<close>\<close>

text \<open>Angle names: left/right shoulder, elbow, hip and knee angle
  (U+5DE6 or U+53F3, then U+80A9, U+8098, U+9ACB or U+819D, then U+89D2 U+5EA6).\<close>

definition left_shoulder_angle :: string where
  "left_shoulder_angle = [CHR 0xE5, CHR 0xB7, CHR 0xA6, CHR 0xE8, CHR 0x82, CHR 0xA9,
     CHR 0xE8, CHR 0xA7, CHR 0x92, CHR 0xE5, CHR 0xBA, CHR 0xA6]"

definition right_shoulder_angle :: string where
  "right_shoulder_angle = [CHR 0xE5, CHR 0x8F, CHR 0xB3, CHR 0xE8, CHR 0x82, CHR 0xA9,
     CHR 0xE8, CHR 0xA7, CHR 0x92, CHR 0xE5, CHR 0xBA, CHR 0xA6]"

definition left_elbow_angle :: string where
  "left_elbow_angle = [CHR 0xE5, CHR 0xB7, CHR 0xA6, CHR 0xE8, CHR 0x82, CHR 0x98,
     CHR 0xE8, CHR 0xA7, CHR 0x92, CHR 0xE5, CHR 0xBA, CHR 0xA6]"

definition right_elbow_angle :: string where
  "right_elbow_angle = [CHR 0xE5, CHR 0x8F, CHR 0xB3, CHR 0xE8, CHR 0x82, CHR 0x98,
     CHR 0xE8, CHR 0xA7, CHR 0x92, CHR 0xE5, CHR 0xBA, CHR 0xA6]"

definition left_hip_angle :: string where
  "left_hip_angle = [CHR 0xE5, CHR 0xB7, CHR 0xA6, CHR 0xE9, CHR 0xAB, CHR 0x8B,
     CHR 0xE8, CHR 0xA7, CHR 0x92, CHR 0xE5, CHR 0xBA, CHR 0xA6]"

definition right_hip_angle :: string where
  "right_hip_angle = [CHR 0xE5, CHR 0x8F, CHR 0xB3, CHR 0xE9, CHR 0xAB, CHR 0x8B,
     CHR 0xE8, CHR 0xA7, CHR 0x92, CHR 0xE5, CHR 0xBA, CHR 0xA6]"

definition left_knee_angle :: string where
  "left_knee_angle = [CHR 0xE5, CHR 0xB7, CHR 0xA6, CHR 0xE8, CHR 0x86, CHR 0x9D,
     CHR 0xE8, CHR 0xA7, CHR 0x92, CHR 0xE5, CHR 0xBA, CHR 0xA6]"

definition right_knee_angle :: string where
  "right_knee_angle = [CHR 0xE5, CHR 0x8F, CHR 0xB3, CHR 0xE8, CHR 0x86, CHR 0x9D,
     CHR 0xE8, CHR 0xA7, CHR 0x92, CHR 0xE5, CHR 0xBA, CHR 0xA6]"

text \<open>Limb names: left/right upper arm, forearm, thigh, shank and side of the trunk, and the
  upper and lower trunk.\<close>

definition left_upper_arm :: string where
  "left_upper_arm = [CHR 0xE5, CHR 0xB7, CHR 0xA6, CHR 0xE5, CHR 0xA4, CHR 0xA7,
     CHR 0xE8, CHR 0x87, CHR 0x82]"

definition left_forearm :: string where
  "left_forearm = [CHR 0xE5, CHR 0xB7, CHR 0xA6, CHR 0xE5, CHR 0xB0, CHR 0x8F,
     CHR 0xE8, CHR 0x87, CHR 0x82]"

definition right_upper_arm :: string where
  "right_upper_arm = [CHR 0xE5, CHR 0x8F, CHR 0xB3, CHR 0xE5, CHR 0xA4, CHR 0xA7,
     CHR 0xE8, CHR 0x87, CHR 0x82]"

definition right_forearm :: string where
  "right_forearm = [CHR 0xE5, CHR 0x8F, CHR 0xB3, CHR 0xE5, CHR 0xB0, CHR 0x8F,
     CHR 0xE8, CHR 0x87, CHR 0x82]"

definition left_thigh :: string where
  "left_thigh = [CHR 0xE5, CHR 0xB7, CHR 0xA6, CHR 0xE5, CHR 0xA4, CHR 0xA7,
     CHR 0xE8, CHR 0x85, CHR 0xBF]"

definition left_shank :: string where
  "left_shank = [CHR 0xE5, CHR 0xB7, CHR 0xA6, CHR 0xE5, CHR 0xB0, CHR 0x8F,
     CHR 0xE8, CHR 0x85, CHR 0xBF]"

definition right_thigh :: string where
  "right_thigh = [CHR 0xE5, CHR 0x8F, CHR 0xB3, CHR 0xE5, CHR 0xA4, CHR 0xA7,
     CHR 0xE8, CHR 0x85, CHR 0xBF]"

definition right_shank :: string where
  "right_shank = [CHR 0xE5, CHR 0x8F, CHR 0xB3, CHR 0xE5, CHR 0xB0, CHR 0x8F,
     CHR 0xE8, CHR 0x85, CHR 0xBF]"

definition left_trunk :: string where
  "left_trunk = [CHR 0xE5, CHR 0xB7, CHR 0xA6, CHR 0xE4, CHR 0xBE, CHR 0xA7,
     CHR 0xE8, CHR 0xBA, CHR 0xAF, CHR 0xE5, CHR 0xB9, CHR 0xB2]"

definition right_trunk :: string where
  "right_trunk = [CHR 0xE5, CHR 0x8F, CHR 0xB3, CHR 0xE4, CHR 0xBE, CHR 0xA7,
     CHR 0xE8, CHR 0xBA, CHR 0xAF, CHR 0xE5, CHR 0xB9, CHR 0xB2]"

definition upper_trunk :: string where
  "upper_trunk = [CHR 0xE8, CHR 0xBA, CHR 0xAF, CHR 0xE5, CHR 0xB9, CHR 0xB2,
     CHR 0xE4, CHR 0xB8, CHR 0x8A]"

definition lower_trunk :: string where
  "lower_trunk = [CHR 0xE8, CHR 0xBA, CHR 0xAF, CHR 0xE5, CHR 0xB9, CHR 0xB2,
     CHR 0xE4, CHR 0xB8, CHR 0x8B]"

definition LIMB_TO_ANGLES :: "(string \<times> string list) list" where
  "LIMB_TO_ANGLES =
    [(left_upper_arm, [left_shoulder_angle, left_elbow_angle]),
     (left_forearm, [left_elbow_angle]),
     (right_upper_arm, [right_shoulder_angle, right_elbow_angle]),
     (right_forearm, [right_elbow_angle]),
     (left_thigh, [left_hip_angle, left_knee_angle]),
     (left_shank, [left_knee_angle]),
     (right_thigh, [right_hip_angle, right_knee_angle]),
     (right_shank, [right_knee_angle]),
     (left_trunk, [left_shoulder_angle, left_hip_angle]),
     (right_trunk, [right_shoulder_angle, right_hip_angle]),
     (upper_trunk, []),
     (lower_trunk, [])]"

subsection \<open>\<^verbatim>\<open>DefaultAnalyzer\<close>\<close>

text \<open>\<^verbatim>\<open>compare_angles\<close>: the threshold argument defaults to \<^verbatim>\<open>None\<close>, which selects the
  analyzer's own threshold.\<close>

definition compare_angles ::
  "DefaultAnalyzer \<Rightarrow> real option \<Rightarrow> real option \<Rightarrow> real option \<Rightarrow> bool \<times> real" where
  "compare_angles self angle1 angle2 threshold =
    (let threshold = (case threshold of None \<Rightarrow> angle_threshold self | Some t \<Rightarrow> t)
     in case angle1 of
          None \<Rightarrow> (True, 0)
        | Some a1 \<Rightarrow>
           (case angle2 of
              None \<Rightarrow> (True, 0)
            | Some a2 \<Rightarrow> (let diff = \<bar>a1 - a2\<bar>; is_matched = (diff \<le> threshold)
                          in (is_matched, diff))))"

text \<open>The three loops of \<^verbatim>\<open>compare_poses\<close>. \<^verbatim>\<open>d[k] = v\<close> is \<^const>\<open>AList.update\<close>: it
  overwrites in place or appends a new key at the end.\<close>

definition angle_matches_of ::
  "DefaultAnalyzer \<Rightarrow> PoseData \<Rightarrow> PoseData \<Rightarrow> real \<Rightarrow> (string \<times> bool) list" where
  "angle_matches_of self pose1 pose2 threshold =
    fold (\<lambda>name angle_matches.
            let std_angle = dict_get (angles pose1) name;
                user_angle = dict_get (angles pose2) name;
                matched = fst (compare_angles self std_angle user_angle (Some threshold))
            in AList.update name matched angle_matches)
         (map fst (angles pose1)) []"

definition limb_matches_of :: "(string \<times> bool) list \<Rightarrow> (string \<times> bool) list" where
  "limb_matches_of angle_matches =
    fold (\<lambda>(limb_name, related_angles) limb_matches.
            if related_angles = [] then AList.update limb_name True limb_matches
            else AList.update limb_name
                   (list_all (\<lambda>angle_name.
                       case map_of angle_matches angle_name of None \<Rightarrow> True | Some m \<Rightarrow> m)
                     related_angles)
                   limb_matches)
         LIMB_TO_ANGLES []"

definition compare_poses ::
  "DefaultAnalyzer \<Rightarrow> PoseData \<Rightarrow> PoseData \<Rightarrow> real option \<Rightarrow> (string \<times> bool) list \<times> real" where
  "compare_poses self pose1 pose2 threshold =
    (let threshold = (case threshold of None \<Rightarrow> angle_threshold self | Some t \<Rightarrow> t);
         angle_matches = angle_matches_of self pose1 pose2 threshold;
         limb_matches = limb_matches_of angle_matches;
         valid_angles = map snd (filter (\<lambda>(name, m). dict_get (angles pose1) name \<noteq> None)
                                   angle_matches);
         match_ratio = (if valid_angles \<noteq> []
                        then real (sum_list (map (\<lambda>m. if m then 1 else 0) valid_angles))
                               / real (length valid_angles)
                        else 0)
     in (limb_matches, match_ratio))"

text \<open>\<^verbatim>\<open>calculate_similarity_score\<close>: the loop carries \<^verbatim>\<open>total_weight\<close> and
  \<^verbatim>\<open>weighted_similarity\<close>.\<close>

definition similarity_step ::
  "PoseData \<Rightarrow> PoseData \<Rightarrow> string \<Rightarrow> real \<times> real \<Rightarrow> real \<times> real" where
  "similarity_step pose1 pose2 name acc =
    (case acc of (total_weight, weighted_similarity) \<Rightarrow>
      (case dict_get (angles pose1) name of
         None \<Rightarrow> acc
       | Some angle1 \<Rightarrow>
          (case dict_get (angles pose2) name of
             None \<Rightarrow> acc
           | Some angle2 \<Rightarrow>
              (let diff = \<bar>angle1 - angle2\<bar>;
                   similarity = exp (- (diff ^ 2) / (2 * 30 ^ 2))
               in (total_weight + 1, weighted_similarity + similarity)))))"

definition calculate_similarity_score :: "DefaultAnalyzer \<Rightarrow> PoseData \<Rightarrow> PoseData \<Rightarrow> real" where
  "calculate_similarity_score self pose1 pose2 =
    (case fold (similarity_step pose1 pose2) (map fst (angles pose1)) (0, 0) of
       (total_weight, weighted_similarity) \<Rightarrow>
         if total_weight > 0 then weighted_similarity / total_weight else 0)"

subsection \<open>The comparison results in the specification's words\<close>

text \<open>The overall ratio: the angle names whose reference value is present, those among them
  that match, and the quotient of the two counts (0 when no reference value is present).\<close>

definition present_names :: "PoseData \<Rightarrow> string list" where
  "present_names ref = filter (\<lambda>name. dict_get (angles ref) name \<noteq> None) (map fst (angles ref))"

definition matched_names :: "DefaultAnalyzer \<Rightarrow> PoseData \<Rightarrow> PoseData \<Rightarrow> real \<Rightarrow> string list" where
  "matched_names self ref cand t =
     filter (\<lambda>name. fst (compare_angles self (dict_get (angles ref) name)
                            (dict_get (angles cand) name) (Some t)))
       (present_names ref)"

definition spec_overall_ratio :: "DefaultAnalyzer \<Rightarrow> PoseData \<Rightarrow> PoseData \<Rightarrow> real \<Rightarrow> real" where
  "spec_overall_ratio self ref cand t =
     (if present_names ref = [] then 0
      else real (length (matched_names self ref cand t)) / real (length (present_names ref)))"

text \<open>A limb's verdict from a table of per-angle verdicts, where a missing entry counts as
  \<open>True\<close>, and the same verdict written with \<^const>\<open>compare_angles\<close> on the two poses.\<close>

definition limb_verdict :: "(string \<times> bool) list \<Rightarrow> string list \<Rightarrow> bool" where
  "limb_verdict angle_matches related =
     (related = [] \<or> (\<forall>a \<in> set related. case map_of angle_matches a of None \<Rightarrow> True | Some m \<Rightarrow> m))"

definition spec_limb_verdict ::
  "DefaultAnalyzer \<Rightarrow> PoseData \<Rightarrow> PoseData \<Rightarrow> real \<Rightarrow> string list \<Rightarrow> bool" where
  "spec_limb_verdict self ref cand t related =
     (if related = [] then True
      else list_all (\<lambda>a. if a \<in> fst ` set (angles ref)
                          then fst (compare_angles self (dict_get (angles ref) a)
                                      (dict_get (angles cand) a) (Some t))
                          else True) related)"

text \<open>The similarity score: the mean of the Gaussian kernel with \<open>\<sigma> = 30\<close> over the angle
  names whose values are present in both poses.\<close>

definition common_names :: "PoseData \<Rightarrow> PoseData \<Rightarrow> string list" where
  "common_names p1 p2 =
     filter (\<lambda>name. dict_get (angles p1) name \<noteq> None \<and> dict_get (angles p2) name \<noteq> None)
       (map fst (angles p1))"

definition angle_diff :: "PoseData \<Rightarrow> PoseData \<Rightarrow> string \<Rightarrow> real" where
  "angle_diff p1 p2 name =
     (case dict_get (angles p1) name of
        None \<Rightarrow> 0
      | Some angle1 \<Rightarrow>
         (case dict_get (angles p2) name of None \<Rightarrow> 0 | Some angle2 \<Rightarrow> \<bar>angle1 - angle2\<bar>))"

definition gaussian_similarity :: "real \<Rightarrow> real" where
  "gaussian_similarity diff = exp (- (diff ^ 2) / (2 * 30 ^ 2))"

definition spec_similarity_score :: "PoseData \<Rightarrow> PoseData \<Rightarrow> real" where
  "spec_similarity_score p1 p2 =
     (if common_names p1 p2 = [] then 0
      else sum_list (map (\<lambda>name. gaussian_similarity (angle_diff p1 p2 name)) (common_names p1 p2))
             / real (length (common_names p1 p2)))"

section \<open>Component registry\<close>

text \<open>Exceptions are values; a call that can raise returns \<open>py_error + 'a\<close>, and a method that
  also mutates its object returns the object beside the result.\<close>

datatype py_error =
  ValueError | TypeError | AttributeError | KeyError | ImportError | OSError | JSONDecodeError
  | RuntimeError

text \<open>\<^verbatim>\<open>ComponentInfo\<close> of \<^verbatim>\<open>src/deps/registry.py\<close>. The fields carry the prefix \<open>info_\<close>, so that
  \<open>name\<close>, \<open>category\<close> and the others stay free for the parameters of the methods. The class
  \<^verbatim>\<open>cls\<close> is \<^verbatim>\<open>None\<close> in the placeholder of a lazily registered component.\<close>

record 'c ComponentInfo =
  info_name :: string
  info_cls :: "'c option"
  info_description :: string
  info_category :: string
  info_is_default :: bool

text \<open>\<^verbatim>\<open>Registry\<close>: \<^verbatim>\<open>_components\<close> maps a category to a dict from names to descriptors, both in
  insertion order. \<^verbatim>\<open>_lazy_imports\<close> maps the key \<^verbatim>\<open>category.name\<close> to a loader; the loader is
  the closure over \<^verbatim>\<open>import_path\<close> and \<^verbatim>\<open>class_name\<close>, kept here as that pair.\<close>

record 'c Registry =
  components :: "(string \<times> (string \<times> 'c ComponentInfo) list) list"
  lazy_imports :: "(string \<times> string \<times> string) list"

text \<open>What \<^verbatim>\<open>getattr(importlib.import_module(import_path), class_name)\<close> yields: an exception, or
  the attribute (a class, or \<^verbatim>\<open>None\<close>). It belongs to the environment and is a parameter.\<close>

type_synonym 'c importer = "string \<Rightarrow> string \<Rightarrow> py_error + 'c option"

definition new_registry :: "'c Registry" where
  "new_registry =
     \<lparr>components = [(''detector'', []), (''analyzer'', []), (''config'', [])],
      lazy_imports = []\<rparr>"

definition instance_key :: "string \<Rightarrow> string \<Rightarrow> string" where
  "instance_key category name = category @ ''.'' @ name"

text \<open>\<^verbatim>\<open>self._components.get(category, {})\<close>\<close>

definition components_get :: "'c Registry \<Rightarrow> string \<Rightarrow> (string \<times> 'c ComponentInfo) list" where
  "components_get self category =
     (case map_of (components self) category of None \<Rightarrow> [] | Some d \<Rightarrow> d)"

definition register ::
  "'c Registry \<Rightarrow> string \<Rightarrow> string \<Rightarrow> 'c \<Rightarrow> string \<Rightarrow> bool \<Rightarrow> 'c Registry" where
  "register self category name cls description is_default =
     (let comps = (if category \<notin> fst ` set (components self)
                   then AList.update category [] (components self)
                   else components self);
          d = (case map_of comps category of None \<Rightarrow> [] | Some d \<Rightarrow> d);
          info = \<lparr>info_name = name, info_cls = Some cls, info_description = description,
                  info_category = category, info_is_default = is_default\<rparr>
      in self\<lparr>components := AList.update category (AList.update name info d) comps\<rparr>)"

definition register_lazy ::
  "'c Registry \<Rightarrow> string \<Rightarrow> string \<Rightarrow> string \<Rightarrow> string \<Rightarrow> string \<Rightarrow> bool \<Rightarrow> 'c Registry" where
  "register_lazy self category name import_path class_name description is_default =
     (let lazy = AList.update (instance_key category name) (import_path, class_name)
                   (lazy_imports self);
          comps = (if category \<notin> fst ` set (components self)
                   then AList.update category [] (components self)
                   else components self);
          d = (case map_of comps category of None \<Rightarrow> [] | Some d \<Rightarrow> d);
          info = \<lparr>info_name = name, info_cls = None, info_description = description,
                  info_category = category, info_is_default = is_default\<rparr>
      in self\<lparr>components := AList.update category (AList.update name info d) comps,
              lazy_imports := lazy\<rparr>)"

text \<open>\<^verbatim>\<open>Registry.get\<close>. The first block runs the loader of a lazily registered component whose
  class is still \<^verbatim>\<open>None\<close> and stores the class in the descriptor; an exception of the loader
  leaves the registry as it was. The second block reads the class.\<close>

definition get ::
  "'c importer \<Rightarrow> 'c Registry \<Rightarrow> string \<Rightarrow> string \<Rightarrow> (py_error + 'c option) \<times> 'c Registry" where
  "get importer self category name =
     (let key = instance_key category name;
          loaded =
            (case map_of (lazy_imports self) key of
               None \<Rightarrow> Inr self
             | Some (import_path, class_name) \<Rightarrow>
                 (case map_of (components_get self category) name of
                    None \<Rightarrow> Inr self
                  | Some component_info \<Rightarrow>
                      if info_cls component_info = None
                      then (case importer import_path class_name of
                              Inl e \<Rightarrow> Inl e
                            | Inr c \<Rightarrow>
                                Inr (self\<lparr>components :=
                                  AList.update category
                                    (AList.update name (component_info\<lparr>info_cls := c\<rparr>)
                                       (components_get self category))
                                    (components self)\<rparr>))
                      else Inr self))
      in case loaded of
           Inl e \<Rightarrow> (Inl e, self)
         | Inr self' \<Rightarrow>
             (case map_of (components_get self' category) name of
                None \<Rightarrow> (Inr None, self')
              | Some component_info \<Rightarrow> (Inr (info_cls component_info), self')))"

text \<open>\<^verbatim>\<open>Registry.get_default\<close>: the loop over \<^verbatim>\<open>components.values()\<close> returns at the first
  descriptor marked default; without one, the first key of the dict is taken.\<close>

definition get_default ::
  "'c importer \<Rightarrow> 'c Registry \<Rightarrow> string \<Rightarrow> (py_error + 'c option) \<times> 'c Registry" where
  "get_default importer self category =
     (let components = components_get self category
      in case find info_is_default (map snd components) of
           Some info \<Rightarrow> get importer self category (info_name info)
         | None \<Rightarrow>
            (case components of
               [] \<Rightarrow> (Inr None, self)
             | (first_name, _) # _ \<Rightarrow> get importer self category first_name))"

text \<open>The registry's invariant: in every category the names are distinct and each descriptor
  carries the name it is stored under.\<close>

definition wf_registry :: "'c Registry \<Rightarrow> bool" where
  "wf_registry self =
     (\<forall>(category, d) \<in> set (components self).
        distinct (map fst d) \<and> (\<forall>(name, info) \<in> set d. info_name info = name))"



section \<open>Configuration\<close>

text \<open>Python values as far as a JSON document and the configuration hold them. A JSON object
  has string keys; \<^verbatim>\<open>PTuple\<close> only arises from \<^verbatim>\<open>tuple(v)\<close> and from the colour defaults.\<close>

datatype pyval =
  PNone | PBool bool | PInt int | PFloat real | PStr string
  | PList "pyval list" | PTuple "pyval list" | PDict "(string \<times> pyval) list"

text \<open>An instance of one of the dataclasses of \<^verbatim>\<open>src/core/base_config.py\<close> is its instance
  dict: the fields in declaration order.\<close>

type_synonym pyobj = "(string \<times> pyval) list"

text \<open>What the interpreter decides and the repository does not: which further names an instance
  resolves through its class (\<^verbatim>\<open>__doc__\<close>, \<^verbatim>\<open>__eq__\<close>, ...), what assigning to such a name does,
  which attribute names a dict object has, and what \<^verbatim>\<open>dict.update\<close> does with an argument that
  is no mapping. They are parameters of the model.\<close>

record pyenv =
  class_attr :: "string \<Rightarrow> bool"
  setattr_class_attr :: "pyobj \<Rightarrow> string \<Rightarrow> pyval \<Rightarrow> py_error + pyobj"
  dict_attr :: "string \<Rightarrow> bool"
  update_iterable :: "(pyval \<times> pyval) list \<Rightarrow> pyval \<Rightarrow> py_error option \<times> (pyval \<times> pyval) list"

definition hasattr :: "pyenv \<Rightarrow> pyobj \<Rightarrow> string \<Rightarrow> bool" where
  "hasattr env obj attr = (attr \<in> fst ` set obj \<or> class_attr env attr)"

definition setattr :: "pyenv \<Rightarrow> pyobj \<Rightarrow> string \<Rightarrow> pyval \<Rightarrow> py_error + pyobj" where
  "setattr env obj attr v =
     (if attr \<in> fst ` set obj then Inr (AList.update attr v obj)
      else setattr_class_attr env obj attr v)"

text \<open>\<^verbatim>\<open>DefaultConfig\<close>: the five sections (\<^verbatim>\<open>_detector\<close>, ..., \<^verbatim>\<open>_colors\<close>) and the dict
  \<^verbatim>\<open>_custom\<close>, whose keys are arbitrary hashable values.\<close>

record DefaultConfig =
  cfg_detector :: pyobj
  cfg_analyzer :: pyobj
  cfg_render :: pyobj
  cfg_window :: pyobj
  cfg_colors :: pyobj
  cfg_custom :: "(pyval \<times> pyval) list"

definition DetectorConfig :: pyobj where
  "DetectorConfig =
     [(''min_detection_confidence'', PFloat (1 / 2)),
      (''min_tracking_confidence'', PFloat (1 / 2)),
      (''model_path'', PStr ''pose_landmarker.task'')]"

definition AnalyzerConfig :: pyobj where
  "AnalyzerConfig = [(''angle_threshold'', PFloat 15)]"

definition RenderConfig :: pyobj where
  "RenderConfig =
     [(''line_thickness_normal'', PInt 2),
      (''line_thickness_bold'', PInt 4),
      (''overlay_alpha'', PFloat (4 / 10)),
      (''overlay_scale'', PFloat (3 / 10))]"

definition WindowConfig :: pyobj where
  "WindowConfig =
     [(''window_name'', PStr ''Pose Comparison System''),
      (''camera_width'', PInt 1280),
      (''camera_height'', PInt 720)]"

definition ColorConfig :: pyobj where
  "ColorConfig =
     [(''green'', PTuple [PInt 0, PInt 255, PInt 0]),
      (''red'', PTuple [PInt 0, PInt 0, PInt 255]),
      (''yellow'', PTuple [PInt 0, PInt 255, PInt 255]),
      (''white'', PTuple [PInt 255, PInt 255, PInt 255])]"

definition new_config :: DefaultConfig where
  "new_config =
     \<lparr>cfg_detector = DetectorConfig, cfg_analyzer = AnalyzerConfig, cfg_render = RenderConfig,
      cfg_window = WindowConfig, cfg_colors = ColorConfig, cfg_custom = []\<rparr>"

subsection \<open>\<^verbatim>\<open>set\<close>\<close>

text \<open>\<^verbatim>\<open>key.split('.')\<close>: never empty, one part more than there are dots.\<close>

fun split_dot :: "string \<Rightarrow> string list" where
  "split_dot [] = [[]]"
| "split_dot (c # cs) =
     (if c = CHR ''.'' then [] # split_dot cs
      else (case split_dot cs of [] \<Rightarrow> [[c]] | p # ps \<Rightarrow> (c # p) # ps))"

definition known_sections :: "string list" where
  "known_sections = [''detector'', ''analyzer'', ''render'', ''window'', ''colors'']"

text \<open>\<^verbatim>\<open>getattr(self, '_' + section, None)\<close> for the five dataclass sections, and the assignment
  back into that section.\<close>

definition section_obj :: "DefaultConfig \<Rightarrow> string \<Rightarrow> pyobj" where
  "section_obj self section =
     (if section = ''detector'' then cfg_detector self
      else if section = ''analyzer'' then cfg_analyzer self
      else if section = ''render'' then cfg_render self
      else if section = ''window'' then cfg_window self
      else cfg_colors self)"

definition put_section :: "DefaultConfig \<Rightarrow> string \<Rightarrow> pyobj \<Rightarrow> DefaultConfig" where
  "put_section self section obj =
     (if section = ''detector'' then self\<lparr>cfg_detector := obj\<rparr>
      else if section = ''analyzer'' then self\<lparr>cfg_analyzer := obj\<rparr>
      else if section = ''render'' then self\<lparr>cfg_render := obj\<rparr>
      else if section = ''window'' then self\<lparr>cfg_window := obj\<rparr>
      else self\<lparr>cfg_colors := obj\<rparr>)"

text \<open>\<^verbatim>\<open>DefaultConfig.set\<close>. A key without a dot goes into \<^verbatim>\<open>_custom\<close>. Otherwise the first two
  parts name a section and an attribute. For the section \<^verbatim>\<open>custom\<close> the object is the dict
  itself, whose attributes are read-only. Any other section name is read as naming no attribute
  of the configuration object, so that \<^verbatim>\<open>getattr\<close> yields \<^verbatim>\<open>None\<close>.\<close>

definition set_config ::
  "pyenv \<Rightarrow> DefaultConfig \<Rightarrow> string \<Rightarrow> pyval \<Rightarrow> py_error option \<times> DefaultConfig" where
  "set_config env self key v =
     (let parts = split_dot key
      in if length parts = 1
         then (None, self\<lparr>cfg_custom := AList.update (PStr key) v (cfg_custom self)\<rparr>)
         else
           let section = parts ! 0; attr = parts ! 1
           in if section \<in> set known_sections
              then (if hasattr env (section_obj self section) attr
                    then (case setattr env (section_obj self section) attr v of
                            Inl e \<Rightarrow> (Some e, self)
                          | Inr obj \<Rightarrow> (None, put_section self section obj))
                    else (None, self))
              else if section = ''custom''
              then (if dict_attr env attr then (Some AttributeError, self) else (None, self))
              else (None, self))"

subsection \<open>\<^verbatim>\<open>from_dict\<close> and \<^verbatim>\<open>load_from_file\<close>\<close>
















text \<open>An interpreter to run examples on: the attribute names of \<^verbatim>\<open>object\<close>, none of them
  assignable here, and a \<^verbatim>\<open>dict.update\<close> that rejects whatever is no mapping.\<close>

definition object_attrs :: "string list" where
  "object_attrs = [''__class__'', ''__dict__'', ''__doc__'', ''__eq__'', ''__hash__'',
     ''__init__'', ''__module__'', ''__repr__'', ''__setattr__'', ''__str__'']"

definition example_env :: pyenv where
  "example_env =
     \<lparr>class_attr = (\<lambda>a. a \<in> set object_attrs),
      setattr_class_attr = (\<lambda>obj a v. Inl TypeError),
      dict_attr = (\<lambda>a. a \<in> set [''clear'', ''get'', ''items'', ''keys'', ''update'', ''values'']),
      update_iterable = (\<lambda>d v. (Some TypeError, d))\<rparr>"


section \<open>Dependency container\<close>

text \<open>The classes that \<^verbatim>\<open>src/deps\<close> defines and the registry holds, with their \<^verbatim>\<open>__name__\<close>.\<close>

datatype pyclass = MediaPipeHeavyDetectorClass | DefaultAnalyzerClass | DefaultConfigClass

fun class_name :: "pyclass \<Rightarrow> string" where
  "class_name MediaPipeHeavyDetectorClass = ''MediaPipeHeavyDetector''"
| "class_name DefaultAnalyzerClass = ''DefaultAnalyzer''"
| "class_name DefaultConfigClass = ''DefaultConfig''"

text \<open>\<^verbatim>\<open>MediaPipeHeavyDetector\<close>: \<^verbatim>\<open>_detector\<close> is the landmarker, \<^verbatim>\<open>None\<close> until an initialization
  succeeds; a landmarker is a number here.\<close>

record MediaPipeHeavyDetector =
  mp_model_path :: string
  mp_min_detection_confidence :: real
  mp_min_tracking_confidence :: real
  mp_use_gpu :: bool
  mp_detector :: "nat option"

datatype component =
  DetectorInstance MediaPipeHeavyDetector
  | AnalyzerInstance DefaultAnalyzer
  | ConfigInstance DefaultConfig

text \<open>\<^verbatim>\<open>cls()\<close>: each constructor with its default arguments.\<close>

fun construct :: "pyclass \<Rightarrow> component" where
  "construct MediaPipeHeavyDetectorClass =
     DetectorInstance \<lparr>mp_model_path = ''models/pose_landmarker_heavy.task'',
       mp_min_detection_confidence = 1 / 2, mp_min_tracking_confidence = 1 / 2,
       mp_use_gpu = True, mp_detector = None\<rparr>"
| "construct DefaultAnalyzerClass = AnalyzerInstance \<lparr>angle_threshold = 15\<rparr>"
| "construct DefaultConfigClass = ConfigInstance new_config"

text \<open>\<^verbatim>\<open>hasattr(instance, 'initialize')\<close>\<close>

fun has_initialize :: "component \<Rightarrow> bool" where
  "has_initialize (DetectorInstance d) = True"
| "has_initialize _ = False"

text \<open>What the body of the \<^verbatim>\<open>try\<close> in \<^verbatim>\<open>initialize\<close> (download the model, build the options,
  create the landmarker) comes to with the GPU delegate (\<open>True\<close>) and with the CPU delegate
  (\<open>False\<close>): an exception or a landmarker. It belongs to the environment.\<close>

type_synonym landmarker_env = "bool \<Rightarrow> py_error + nat"

text \<open>\<^verbatim>\<open>MediaPipeHeavyDetector.initialize\<close>. Beside the returned flag and the detector, the model
  records the delegates that were tried, in order (\<open>True\<close> for GPU): the code does not keep this
  list, the theorems count attempts with it.\<close>

function initialize ::
  "landmarker_env \<Rightarrow> MediaPipeHeavyDetector \<Rightarrow> bool \<times> MediaPipeHeavyDetector \<times> bool list" where
  "initialize env self =
     (case env (mp_use_gpu self) of
        Inr landmarker \<Rightarrow> (True, self\<lparr>mp_detector := Some landmarker\<rparr>, [mp_use_gpu self])
      | Inl e \<Rightarrow>
          if mp_use_gpu self
          then (case initialize env (self\<lparr>mp_use_gpu := False\<rparr>) of
                  (ok, self', tried) \<Rightarrow> (ok, self', True # tried))
          else (False, self, [False]))"
  by pat_completeness auto
termination
  by (relation "measure (\<lambda>(env, self). if mp_use_gpu self then 1 else 0)") auto

text \<open>The closure \<^verbatim>\<open>factory\<close> of \<^verbatim>\<open>Deps._create_lazy_instance\<close>, over \<^verbatim>\<open>category\<close> and \<^verbatim>\<open>name\<close>.
  The flag that \<^verbatim>\<open>initialize\<close> returns is dropped, as in the code.\<close>

definition factory ::
  "landmarker_env \<Rightarrow> pyclass importer \<Rightarrow> pyclass Registry \<Rightarrow> string \<Rightarrow> string
     \<Rightarrow> (py_error + component) \<times> pyclass Registry \<times> bool list" where
  "factory env importer reg category name =
     (case get importer reg category name of
        (Inl e, reg') \<Rightarrow> (Inl e, reg', [])
      | (Inr None, reg') \<Rightarrow> (Inl ValueError, reg', [])
      | (Inr (Some cls), reg') \<Rightarrow>
          (case construct cls of
             DetectorInstance d \<Rightarrow>
               if category = ''detector'' \<and> has_initialize (DetectorInstance d)
               then (case initialize env d of
                       (ok, d', tried) \<Rightarrow> (Inr (DetectorInstance d'), reg', tried))
               else (Inr (DetectorInstance d), reg', [])
           | other \<Rightarrow> (Inr other, reg', [])))"

text \<open>\<^verbatim>\<open>LazyInstance\<close>: the factory's \<^verbatim>\<open>category\<close> and \<^verbatim>\<open>name\<close>, and the instance once made.\<close>

record LazyInstance =
  lazy_category :: string
  lazy_name :: string
  lazy_instance :: "component option"

text \<open>\<^verbatim>\<open>LazyInstance.get\<close>, run by one thread alone: an exception of the factory leaves
  \<^verbatim>\<open>_instance\<close> at \<^verbatim>\<open>None\<close>.\<close>

definition lazy_get ::
  "landmarker_env \<Rightarrow> pyclass importer \<Rightarrow> pyclass Registry \<Rightarrow> LazyInstance
     \<Rightarrow> (py_error + component) \<times> LazyInstance \<times> pyclass Registry \<times> bool list" where
  "lazy_get env importer reg self =
     (case lazy_instance self of
        Some inst \<Rightarrow> (Inr inst, self, reg, [])
      | None \<Rightarrow>
          (case factory env importer reg (lazy_category self) (lazy_name self) of
             (Inl e, reg', tried) \<Rightarrow> (Inl e, self, reg', tried)
           | (Inr inst, reg', tried) \<Rightarrow>
               (Inr inst, self\<lparr>lazy_instance := Some inst\<rparr>, reg', tried)))"

record Deps =
  deps_registry :: "pyclass Registry"
  deps_instances :: "(string \<times> LazyInstance) list"
  current_selections :: "(string \<times> string option) list"

definition new_deps :: "pyclass Registry \<Rightarrow> Deps" where
  "new_deps reg =
     \<lparr>deps_registry = reg, deps_instances = [],
      current_selections = [(''detector'', None), (''analyzer'', None), (''config'', None)]\<rparr>"

text \<open>\<^verbatim>\<open>Deps.get_detector\<close>, run by one thread alone. The name is the argument, else the current
  selection, else the \<^verbatim>\<open>__name__\<close> of the registry's default class.\<close>

definition get_detector ::
  "landmarker_env \<Rightarrow> pyclass importer \<Rightarrow> Deps \<Rightarrow> string option
     \<Rightarrow> (py_error + component) \<times> Deps \<times> bool list" where
  "get_detector env importer self name =
     (let name = (case name of
                    None \<Rightarrow> (case map_of (current_selections self) ''detector'' of
                               None \<Rightarrow> None | Some s \<Rightarrow> s)
                  | Some n \<Rightarrow> Some n);
          resolved =
            (case name of
               Some n \<Rightarrow> Inr (n, self)
             | None \<Rightarrow>
                 (case get_default importer (deps_registry self) ''detector'' of
                    (Inl e, reg') \<Rightarrow> Inl (e, self\<lparr>deps_registry := reg'\<rparr>)
                  | (Inr None, reg') \<Rightarrow> Inl (ValueError, self\<lparr>deps_registry := reg'\<rparr>)
                  | (Inr (Some cls), reg') \<Rightarrow>
                      Inr (class_name cls, self\<lparr>deps_registry := reg'\<rparr>)))
      in case resolved of
           Inl (e, self') \<Rightarrow> (Inl e, self', [])
         | Inr (n, self') \<Rightarrow>
            (let key = instance_key ''detector'' n;
                 lazy = (case map_of (deps_instances self') key of
                           None \<Rightarrow> \<lparr>lazy_category = ''detector'', lazy_name = n,
                                     lazy_instance = None\<rparr>
                         | Some l \<Rightarrow> l)
             in case lazy_get env importer (deps_registry self') lazy of
                  (r, lazy', reg', tried) \<Rightarrow>
                    (r, self'\<lparr>deps_registry := reg',
                             deps_instances := AList.update key lazy' (deps_instances self')\<rparr>,
                     tried)))"

text \<open>\<^verbatim>\<open>Deps.register_detector\<close>\<close>

definition register_detector :: "Deps \<Rightarrow> string \<Rightarrow> pyclass \<Rightarrow> string \<Rightarrow> bool \<Rightarrow> Deps" where
  "register_detector self name cls description is_default =
     self\<lparr>deps_registry := register (deps_registry self) ''detector'' name cls description
                              is_default\<rparr>"

text \<open>A container in which \<^verbatim>\<open>register_detector("MediaPipe-Heavy", MediaPipeHeavyDetector)\<close>
  has been called, the name being the one the detector reports as its \<^verbatim>\<open>name\<close>.\<close>

definition heavy_deps :: Deps where
  "heavy_deps =
     register_detector (new_deps new_registry) ''MediaPipe-Heavy'' MediaPipeHeavyDetectorClass
       [] False"


subsection \<open>Concurrent first access\<close>

text \<open>
  Threads running \<^verbatim>\<open>Deps.get_detector(name)\<close> for one name, interleaved statement by
  statement. The container's dict \<^verbatim>\<open>_instances\<close> maps the key to the address of a
  \<^verbatim>\<open>LazyInstance\<close> object; the objects live in a store, since two of them can exist for one
  key. An instance is known by the number of the factory call that made it. A thread is at one of
  these points:
  \<^item> \<open>CheckKey\<close>: \<^verbatim>\<open>if key not in self._instances:\<close>
  \<^item> \<open>StoreLazy\<close>: \<^verbatim>\<open>self._instances[key] = self._create_lazy_instance('detector', name)\<close>
  \<^item> \<open>LoadLazy\<close>: \<^verbatim>\<open>self._instances[key]\<close>, the receiver of \<^verbatim>\<open>.get()\<close>
  \<^item> \<open>Check1 a\<close>: \<^verbatim>\<open>if self._instance is None:\<close>, outside the lock, in the object at \<open>a\<close>
  \<^item> \<open>Acquire a\<close>: \<^verbatim>\<open>with self._lock:\<close>, which waits while another thread holds the lock
  \<^item> \<open>Check2 a\<close>: \<^verbatim>\<open>if self._instance is None:\<close>, inside the lock
  \<^item> \<open>Construct a\<close>: \<^verbatim>\<open>self._instance = self._factory()\<close>
  \<^item> \<open>Release a\<close>: the end of the \<^verbatim>\<open>with\<close> block
  \<^item> \<open>Return a\<close>: \<^verbatim>\<open>return self._instance\<close>
  \<^item> \<open>Done r\<close>: the call has returned \<open>r\<close>.
\<close>

datatype pc =
  CheckKey | StoreLazy | LoadLazy
  | Check1 nat | Acquire nat | Check2 nat | Construct nat | Release nat | Return nat
  | Done "nat option"

record lazy_cell =
  cell_instance :: "nat option"
  cell_lock :: "nat option"

record conf =
  instances_dict :: "(string \<times> nat) list"
  store :: "lazy_cell list"
  factory_calls :: nat
  pcs :: "pc list"

definition initial_conf :: "nat \<Rightarrow> conf" where
  "initial_conf n =
     \<lparr>instances_dict = [], store = [], factory_calls = 0, pcs = replicate n CheckKey\<rparr>"

text \<open>One statement of thread \<open>t\<close>; \<open>None\<close> when the thread has returned, waits for the lock, or
  does not exist.\<close>

definition thread_step :: "string \<Rightarrow> nat \<Rightarrow> conf \<Rightarrow> conf option" where
  "thread_step key t c =
     (if t \<ge> length (pcs c) then None
      else
        (case pcs c ! t of
           CheckKey \<Rightarrow>
             Some (c\<lparr>pcs := (pcs c)[t := (if key \<notin> fst ` set (instances_dict c)
                                          then StoreLazy else LoadLazy)]\<rparr>)
         | StoreLazy \<Rightarrow>
             Some (c\<lparr>instances_dict := AList.update key (length (store c)) (instances_dict c),
                     store := store c @ [\<lparr>cell_instance = None, cell_lock = None\<rparr>],
                     pcs := (pcs c)[t := LoadLazy]\<rparr>)
         | LoadLazy \<Rightarrow>
             (case map_of (instances_dict c) key of
                None \<Rightarrow> None
              | Some a \<Rightarrow> Some (c\<lparr>pcs := (pcs c)[t := Check1 a]\<rparr>))
         | Check1 a \<Rightarrow>
             (if a \<ge> length (store c) then None
              else Some (c\<lparr>pcs := (pcs c)[t := (if cell_instance (store c ! a) = None
                                               then Acquire a else Return a)]\<rparr>))
         | Acquire a \<Rightarrow>
             (if a \<ge> length (store c) then None
              else if cell_lock (store c ! a) \<noteq> None then None
              else Some (c\<lparr>store := (store c)[a := (store c ! a)\<lparr>cell_lock := Some t\<rparr>],
                           pcs := (pcs c)[t := Check2 a]\<rparr>))
         | Check2 a \<Rightarrow>
             (if a \<ge> length (store c) then None
              else Some (c\<lparr>pcs := (pcs c)[t := (if cell_instance (store c ! a) = None
                                               then Construct a else Release a)]\<rparr>))
         | Construct a \<Rightarrow>
             (if a \<ge> length (store c) then None
              else Some (c\<lparr>factory_calls := factory_calls c + 1,
                           store := (store c)[a := (store c ! a)
                                      \<lparr>cell_instance := Some (factory_calls c + 1)\<rparr>],
                           pcs := (pcs c)[t := Release a]\<rparr>))
         | Release a \<Rightarrow>
             (if a \<ge> length (store c) then None
              else Some (c\<lparr>store := (store c)[a := (store c ! a)\<lparr>cell_lock := None\<rparr>],
                           pcs := (pcs c)[t := Return a]\<rparr>))
         | Return a \<Rightarrow>
             (if a \<ge> length (store c) then None
              else Some (c\<lparr>pcs := (pcs c)[t := Done (cell_instance (store c ! a))]\<rparr>))
         | Done r \<Rightarrow> None))"

text \<open>A schedule names the thread that runs next, statement after statement.\<close>

fun run :: "string \<Rightarrow> nat list \<Rightarrow> conf \<Rightarrow> conf option" where
  "run key [] c = Some c"
| "run key (t # ts) c = (case thread_step key t c of None \<Rightarrow> None | Some c' \<Rightarrow> run key ts c')"

text \<open>Thread 0 and thread 1 both find the key missing before either has stored an object.\<close>

definition racing_schedule :: "nat list" where
  "racing_schedule = [0, 1, 0, 0, 1, 1, 0, 0, 0, 0, 0, 0, 1, 1, 1, 1, 1, 1]"

text \<open>Thread 1 calls after thread 0 has returned.\<close>

definition sequential_schedule :: "nat list" where
  "sequential_schedule = [0, 0, 0, 0, 0, 0, 0, 0, 0, 1, 1, 1, 1]"

text \<open>Threads that share one \<^verbatim>\<open>LazyInstance\<close> object and are about to run its \<^verbatim>\<open>get\<close>.\<close>

definition shared_cell_conf :: "string \<Rightarrow> nat \<Rightarrow> conf" where
  "shared_cell_conf key n =
     \<lparr>instances_dict = [(key, 0)],
      store = [\<lparr>cell_instance = None, cell_lock = None\<rparr>],
      factory_calls = 0,
      pcs = replicate n (Check1 0)\<rparr>"

text \<open>What holds of a thread at each point of \<^verbatim>\<open>LazyInstance.get\<close> on the shared object: inside
  the \<^verbatim>\<open>with\<close> block it holds the lock, it is about to construct only while the instance is
  missing, and it returns only the first instance.\<close>

fun pc_ok :: "lazy_cell \<Rightarrow> nat \<Rightarrow> pc \<Rightarrow> bool" where
  "pc_ok cell t (Check1 a) = (a = 0)"
| "pc_ok cell t (Acquire a) = (a = 0)"
| "pc_ok cell t (Check2 a) = (a = 0 \<and> cell_lock cell = Some t)"
| "pc_ok cell t (Construct a) = (a = 0 \<and> cell_lock cell = Some t \<and> cell_instance cell = None)"
| "pc_ok cell t (Release a) = (a = 0 \<and> cell_lock cell = Some t \<and> cell_instance cell = Some 1)"
| "pc_ok cell t (Return a) = (a = 0 \<and> cell_instance cell = Some 1)"
| "pc_ok cell t (Done r) = (r = Some 1)"
| "pc_ok cell t _ = False"

definition dcl_inv :: "conf \<Rightarrow> bool" where
  "dcl_inv c =
     (length (store c) = 1
      \<and> ((cell_instance (store c ! 0) = None \<and> factory_calls c = 0)
           \<or> (cell_instance (store c ! 0) = Some 1 \<and> factory_calls c = 1))
      \<and> (\<forall>t < length (pcs c). pc_ok (store c ! 0) t (pcs c ! t)))"

section \<open>Properties of the pose comparison\<close>

lemmas name_defs = left_shoulder_angle_def right_shoulder_angle_def left_elbow_angle_def
  right_elbow_angle_def left_hip_angle_def right_hip_angle_def left_knee_angle_def
  right_knee_angle_def left_upper_arm_def left_forearm_def right_upper_arm_def
  right_forearm_def left_thigh_def left_shank_def right_thigh_def right_shank_def
  left_trunk_def right_trunk_def upper_trunk_def lower_trunk_def

subsection \<open>Dict assignment in a loop\<close>

lemma update_fresh: "k \<notin> fst ` set al \<Longrightarrow> AList.update k v al = al @ [(k, v)]"
  by (induction al) auto

lemma fold_update_distinct:
  "distinct ks \<Longrightarrow> set ks \<inter> fst ` set acc = {} \<Longrightarrow>
   fold (\<lambda>k am. AList.update k (f k) am) ks acc = acc @ map (\<lambda>k. (k, f k)) ks"
proof (induction ks arbitrary: acc)
  case Nil
  then show ?case by simp
next
  case (Cons k ks)
  have fresh: "k \<notin> fst ` set acc" using Cons.prems by auto
  have "set ks \<inter> fst ` set (acc @ [(k, f k)]) = {}" using Cons.prems by auto
  with Cons have "fold (\<lambda>k am. AList.update k (f k) am) ks (acc @ [(k, f k)])
      = (acc @ [(k, f k)]) @ map (\<lambda>k. (k, f k)) ks" by simp
  then show ?case by (simp add: update_fresh [OF fresh])
qed

lemma map_of_fold_update:
  "map_of (fold (\<lambda>k am. AList.update k (f k) am) ks acc) a
     = (if a \<in> set ks then Some (f a) else map_of acc a)"
  by (induction ks arbitrary: acc) (auto simp: update_conv')

lemma angle_matches_of_distinct:
  "distinct (map fst (angles pose1)) \<Longrightarrow>
   angle_matches_of self pose1 pose2 t =
     map (\<lambda>name. (name, fst (compare_angles self (dict_get (angles pose1) name)
                               (dict_get (angles pose2) name) (Some t))))
       (map fst (angles pose1))"
  unfolding angle_matches_of_def Let_def
  using fold_update_distinct [of "map fst (angles pose1)" "[]"] by simp

lemma map_of_angle_matches:
  "map_of (angle_matches_of self pose1 pose2 t) a =
     (if a \<in> fst ` set (angles pose1)
      then Some (fst (compare_angles self (dict_get (angles pose1) a)
                        (dict_get (angles pose2) a) (Some t)))
      else None)"
  unfolding angle_matches_of_def Let_def
  by (simp add: map_of_fold_update)

lemma sum_list_of_bool:
  "sum_list (map (\<lambda>m. if m then 1 else 0) bs) = length (filter (\<lambda>m. m) bs)"
  by (induction bs) auto

subsection \<open>\<^verbatim>\<open>compare_angles\<close>\<close>

text \<open>
  C2. For optional angles \<open>a\<close>, \<open>b\<close> and a threshold \<open>t\<close>: if \<open>a\<close> or \<open>b\<close> is absent,
  \<^verbatim>\<open>compare_angles\<close> returns \<open>(True, 0.0)\<close>; otherwise it returns \<open>(diff \<le> t, diff)\<close> with
  \<open>diff = |a - b|\<close>, the boundary being inclusive, so that
  \<^verbatim>\<open>compare_angles(100, 115, 15) = (True, 15)\<close>.
\<close>

theorem compare_angles_spec:
  "(a = None \<or> b = None \<longrightarrow> compare_angles self a b (Some t) = (True, 0))
   \<and> (\<forall>u v. a = Some u \<and> b = Some v \<longrightarrow>
         compare_angles self a b (Some t) = (\<bar>u - v\<bar> \<le> t, \<bar>u - v\<bar>))
   \<and> compare_angles self (Some 100) (Some 115) (Some 15) = (True, 15)"
  by (auto simp: compare_angles_def Let_def split: option.splits)

theorem compare_angles_spec_witness:
  "compare_angles \<lparr>angle_threshold = 15\<rparr> None (Some 40) (Some 5) = (True, 0)
   \<and> compare_angles \<lparr>angle_threshold = 15\<rparr> (Some 100) (Some 120) (Some 15) = (False, 20)
   \<and> compare_angles \<lparr>angle_threshold = 15\<rparr> (Some 100) (Some 110) (Some 15) = (True, 10)"
  using compare_angles_spec [of None "Some 40" "\<lparr>angle_threshold = 15\<rparr>" 5]
    compare_angles_spec [of "Some 100" "Some 120" "\<lparr>angle_threshold = 15\<rparr>" 15]
    compare_angles_spec [of "Some 100" "Some 110" "\<lparr>angle_threshold = 15\<rparr>" 15]
  by simp

subsection \<open>\<^verbatim>\<open>compare_poses\<close>: the overall ratio\<close>

text \<open>
  C1. For every pair of pose snapshots and every threshold (an omitted threshold is the
  analyzer's own), the overall ratio returned by \<^verbatim>\<open>compare_poses\<close> is the number of matched
  angles among the angle names whose reference value is present, divided by the number of angle
  names whose reference value is present; names whose reference value is absent count in
  neither, and the ratio is 0 when no reference value is present. The reference's angle dict has
  pairwise distinct keys, as every Python dict has.
\<close>

theorem compare_poses_ratio:
  assumes "distinct (map fst (angles pose1))"
  shows "snd (compare_poses self pose1 pose2 thr) =
    spec_overall_ratio self pose1 pose2
      (case thr of None \<Rightarrow> angle_threshold self | Some t \<Rightarrow> t)"
proof -
  define t where "t = (case thr of None \<Rightarrow> angle_threshold self | Some t \<Rightarrow> t)"
  define v where "v = (\<lambda>name. fst (compare_angles self (dict_get (angles pose1) name)
                               (dict_get (angles pose2) name) (Some t)))"
  define ks where "ks = map fst (angles pose1)"
  have am: "angle_matches_of self pose1 pose2 t = map (\<lambda>name. (name, v name)) ks"
    using angle_matches_of_distinct [OF assms] by (simp add: v_def ks_def)
  have valid: "map snd (filter (\<lambda>(name, m). dict_get (angles pose1) name \<noteq> None)
                 (angle_matches_of self pose1 pose2 t))
      = map v (present_names pose1)"
    by (simp add: am present_names_def ks_def filter_map o_def)
  have cnt: "length (filter (\<lambda>m. m) (map v (present_names pose1)))
      = length (matched_names self pose1 pose2 t)"
    by (simp add: matched_names_def v_def filter_map o_def)
  have s: "sum_list (map (\<lambda>m. if m then 1 else 0) (map v (present_names pose1)))
      = length (matched_names self pose1 pose2 t)"
    by (simp only: sum_list_of_bool cnt)
  show ?thesis
    unfolding compare_poses_def Let_def t_def [symmetric] valid s
    by (simp add: spec_overall_ratio_def)
qed

text \<open>A reference with the left elbow at 150, the left knee absent and the right elbow at 90,
  against a candidate with 130 and 100, at the default threshold 15: two present, one matched.\<close>

theorem compare_poses_ratio_witness:
  "distinct (map fst (angles \<lparr>landmarks = [], angles = [(left_elbow_angle, Some 150),
       (left_knee_angle, None), (right_elbow_angle, Some 90)]\<rparr>))
   \<and> snd (compare_poses \<lparr>angle_threshold = 15\<rparr>
        \<lparr>landmarks = [], angles = [(left_elbow_angle, Some 150), (left_knee_angle, None),
           (right_elbow_angle, Some 90)]\<rparr>
        \<lparr>landmarks = [], angles = [(left_elbow_angle, Some 130),
           (right_elbow_angle, Some 100)]\<rparr> None) = 1 / 2"
proof -
  have d: "distinct (map fst (angles \<lparr>landmarks = [], angles = [(left_elbow_angle, Some 150),
       (left_knee_angle, None), (right_elbow_angle, Some 90)]\<rparr>))"
    by (simp add: name_defs)
  show ?thesis
    using d compare_poses_ratio [OF d, of "\<lparr>angle_threshold = 15\<rparr>"
         "\<lparr>landmarks = [], angles = [(left_elbow_angle, Some 130),
            (right_elbow_angle, Some 100)]\<rparr>" None]
    by (simp add: spec_overall_ratio_def present_names_def matched_names_def dict_get_def
          compare_angles_def name_defs)
qed

subsection \<open>\<^verbatim>\<open>compare_poses\<close>: the limb verdicts\<close>

lemma distinct_limbs: "distinct (map fst LIMB_TO_ANGLES)"
  by (simp add: LIMB_TO_ANGLES_def name_defs)

lemma fold_update_pairs:
  "distinct (map fst ks) \<Longrightarrow> set (map fst ks) \<inter> fst ` set acc = {} \<Longrightarrow>
   fold (\<lambda>k lm. AList.update (fst k) (g (snd k)) lm) ks acc
     = acc @ map (\<lambda>k. (fst k, g (snd k))) ks"
proof (induction ks arbitrary: acc)
  case Nil
  then show ?case by simp
next
  case (Cons k ks)
  have fresh: "fst k \<notin> fst ` set acc" using Cons.prems by auto
  have "set (map fst ks) \<inter> fst ` set (acc @ [(fst k, g (snd k))]) = {}"
    using Cons.prems by auto
  with Cons have "fold (\<lambda>k lm. AList.update (fst k) (g (snd k)) lm) ks (acc @ [(fst k, g (snd k))])
      = (acc @ [(fst k, g (snd k))]) @ map (\<lambda>k. (fst k, g (snd k))) ks" by simp
  then show ?case by (simp add: update_fresh [OF fresh])
qed

lemma limb_matches_of_eq:
  "limb_matches_of am = map (\<lambda>(limb, related). (limb, limb_verdict am related)) LIMB_TO_ANGLES"
proof -
  have step: "(\<lambda>(limb_name, related_angles) limb_matches.
            if related_angles = [] then AList.update limb_name True limb_matches
            else AList.update limb_name
                   (list_all (\<lambda>angle_name.
                       case map_of am angle_name of None \<Rightarrow> True | Some m \<Rightarrow> m)
                     related_angles)
                   limb_matches)
      = (\<lambda>k lm. AList.update (fst k) (limb_verdict am (snd k)) lm)"
    by (auto simp: fun_eq_iff limb_verdict_def list_all_iff)
  show ?thesis
    unfolding limb_matches_of_def step
    using fold_update_pairs [OF distinct_limbs, of "[]" "limb_verdict am"]
    by (simp add: case_prod_unfold)
qed

lemma limb_verdict_eq_spec:
  "limb_verdict (angle_matches_of self pose1 pose2 t) related
     = spec_limb_verdict self pose1 pose2 t related"
  by (auto simp: limb_verdict_def spec_limb_verdict_def map_of_angle_matches list_all_iff)

lemma compare_poses_limbs:
  "fst (compare_poses self pose1 pose2 thr) =
     map (\<lambda>(limb, related).
            (limb, spec_limb_verdict self pose1 pose2
                     (case thr of None \<Rightarrow> angle_threshold self | Some t \<Rightarrow> t) related))
       LIMB_TO_ANGLES"
  by (simp add: compare_poses_def Let_def limb_matches_of_eq limb_verdict_eq_spec)

text \<open>
  C7. For every pair of pose snapshots and every threshold, \<^verbatim>\<open>compare_poses\<close> gives each limb
  of the static limb-to-angles table exactly one verdict: true when the limb has no governing
  angles, and otherwise the conjunction of the verdicts of its governing angles, where a
  governing angle without a verdict entry (one that is no key of the reference) counts as true.
\<close>

theorem compare_poses_limb_verdicts:
  "(\<forall>(limb, related) \<in> set LIMB_TO_ANGLES.
      map_of (fst (compare_poses self pose1 pose2 thr)) limb =
        Some (spec_limb_verdict self pose1 pose2
                (case thr of None \<Rightarrow> angle_threshold self | Some t \<Rightarrow> t) related))
   \<and> map fst (fst (compare_poses self pose1 pose2 thr)) = map fst LIMB_TO_ANGLES"
proof -
  define g where "g = spec_limb_verdict self pose1 pose2
                (case thr of None \<Rightarrow> angle_threshold self | Some t \<Rightarrow> t)"
  have eq: "fst (compare_poses self pose1 pose2 thr)
      = map (\<lambda>(limb, related). (limb, g related)) LIMB_TO_ANGLES"
    using compare_poses_limbs [of self pose1 pose2 thr] by (simp add: g_def)
  have "map_of (map (\<lambda>(limb, related). (limb, g related)) LIMB_TO_ANGLES) limb = Some (g related)"
    if "(limb, related) \<in> set LIMB_TO_ANGLES" for limb related
    using map_of_is_SomeI [OF distinct_limbs that] by (simp add: map_of_map)
  then show ?thesis
    unfolding eq g_def [symmetric] by (auto simp: case_prod_unfold o_def)
qed

text \<open>The reference holds the left elbow at 150 and the candidate at 130, threshold 15: the left
  forearm fails, the right forearm (its angle has no verdict) and the upper trunk (no governing
  angle) pass.\<close>

theorem compare_poses_limb_verdicts_witness:
  "map_of (fst (compare_poses \<lparr>angle_threshold = 15\<rparr>
        \<lparr>landmarks = [], angles = [(left_elbow_angle, Some 150)]\<rparr>
        \<lparr>landmarks = [], angles = [(left_elbow_angle, Some 130)]\<rparr> (Some 15))) left_forearm
     = Some False
   \<and> map_of (fst (compare_poses \<lparr>angle_threshold = 15\<rparr>
        \<lparr>landmarks = [], angles = [(left_elbow_angle, Some 150)]\<rparr>
        \<lparr>landmarks = [], angles = [(left_elbow_angle, Some 130)]\<rparr> (Some 15))) right_forearm
     = Some True
   \<and> map_of (fst (compare_poses \<lparr>angle_threshold = 15\<rparr>
        \<lparr>landmarks = [], angles = [(left_elbow_angle, Some 150)]\<rparr>
        \<lparr>landmarks = [], angles = [(left_elbow_angle, Some 130)]\<rparr> (Some 15))) upper_trunk
     = Some True"
proof -
  have m1: "(left_forearm, [left_elbow_angle]) \<in> set LIMB_TO_ANGLES"
    and m2: "(right_forearm, [right_elbow_angle]) \<in> set LIMB_TO_ANGLES"
    and m3: "(upper_trunk, []) \<in> set LIMB_TO_ANGLES"
    by (simp_all add: LIMB_TO_ANGLES_def)
  have a: "\<And>limb related. (limb, related) \<in> set LIMB_TO_ANGLES \<Longrightarrow>
      map_of (fst (compare_poses \<lparr>angle_threshold = 15\<rparr>
        \<lparr>landmarks = [], angles = [(left_elbow_angle, Some 150)]\<rparr>
        \<lparr>landmarks = [], angles = [(left_elbow_angle, Some 130)]\<rparr> (Some 15))) limb
      = Some (spec_limb_verdict \<lparr>angle_threshold = 15\<rparr>
        \<lparr>landmarks = [], angles = [(left_elbow_angle, Some 150)]\<rparr>
        \<lparr>landmarks = [], angles = [(left_elbow_angle, Some 130)]\<rparr> 15 related)"
    using compare_poses_limb_verdicts [of "\<lparr>angle_threshold = 15\<rparr>"
        "\<lparr>landmarks = [], angles = [(left_elbow_angle, Some 150)]\<rparr>"
        "\<lparr>landmarks = [], angles = [(left_elbow_angle, Some 130)]\<rparr>" "Some 15"]
    by auto
  show ?thesis
    unfolding a [OF m1] a [OF m2] a [OF m3]
    by (simp add: spec_limb_verdict_def dict_get_def compare_angles_def name_defs)
qed

subsection \<open>\<^verbatim>\<open>calculate_similarity_score\<close>\<close>

lemma similarity_fold:
  "fold (similarity_step p1 p2) ks (w, s) =
     (w + real (length (filter (\<lambda>name. dict_get (angles p1) name \<noteq> None
                                   \<and> dict_get (angles p2) name \<noteq> None) ks)),
      s + sum_list (map (\<lambda>name. gaussian_similarity (angle_diff p1 p2 name))
            (filter (\<lambda>name. dict_get (angles p1) name \<noteq> None
                                   \<and> dict_get (angles p2) name \<noteq> None) ks)))"
proof (induction ks arbitrary: w s)
  case Nil
  then show ?case by simp
next
  case (Cons k ks)
  show ?case
  proof (cases "dict_get (angles p1) k")
    case None
    then show ?thesis using Cons.IH [of w s] by (simp add: similarity_step_def)
  next
    case a1: (Some a1)
    show ?thesis
    proof (cases "dict_get (angles p2) k")
      case None
      then show ?thesis using Cons.IH [of w s] a1 by (simp add: similarity_step_def)
    next
      case a2: (Some a2)
      have "similarity_step p1 p2 k (w, s) = (w + 1, s + gaussian_similarity (angle_diff p1 p2 k))"
        by (simp add: similarity_step_def a1 a2 Let_def gaussian_similarity_def angle_diff_def)
      then show ?thesis
        using Cons.IH [of "w + 1" "s + gaussian_similarity (angle_diff p1 p2 k)"] a1 a2
        by (simp add: algebra_simps)
    qed
  qed
qed

lemma score_eq_spec: "calculate_similarity_score self p1 p2 = spec_similarity_score p1 p2"
proof -
  have f: "fold (similarity_step p1 p2) (map fst (angles p1)) (0, 0) =
     (real (length (common_names p1 p2)),
      sum_list (map (\<lambda>name. gaussian_similarity (angle_diff p1 p2 name)) (common_names p1 p2)))"
    using similarity_fold [of p1 p2 "map fst (angles p1)" 0 0]
    by (simp add: common_names_def)
  show ?thesis
    unfolding calculate_similarity_score_def f
    by (simp add: spec_similarity_score_def)
qed

lemma gaussian_bounds: "0 < gaussian_similarity d \<and> gaussian_similarity d \<le> 1"
  by (simp add: gaussian_similarity_def)

lemma sum_list_gaussian_bounds:
  "0 \<le> sum_list (map (\<lambda>n. gaussian_similarity (g n)) ns)
   \<and> sum_list (map (\<lambda>n. gaussian_similarity (g n)) ns) \<le> real (length ns)"
proof (induction ns)
  case Nil
  then show ?case by simp
next
  case (Cons n ns)
  have "0 < gaussian_similarity (g n)" "gaussian_similarity (g n) \<le> 1"
    using gaussian_bounds by auto
  with Cons show ?case by simp
qed

lemma spec_score_bounds: "0 \<le> spec_similarity_score p1 p2 \<and> spec_similarity_score p1 p2 \<le> 1"
proof (cases "common_names p1 p2 = []")
  case True
  then show ?thesis by (simp add: spec_similarity_score_def)
next
  case False
  then have pos: "0 < real (length (common_names p1 p2))" by simp
  from sum_list_gaussian_bounds [of "angle_diff p1 p2" "common_names p1 p2"] pos False
  show ?thesis
    by (simp add: spec_similarity_score_def divide_le_eq)
qed

lemma sum_list_all_one:
  "\<forall>n \<in> set ns. h n = (1::real) \<Longrightarrow> sum_list (map h ns) = real (length ns)"
  by (induction ns) auto

lemma spec_score_one:
  assumes "common_names p1 p2 \<noteq> []"
    and "\<forall>n \<in> set (common_names p1 p2). angle_diff p1 p2 n = 0"
  shows "spec_similarity_score p1 p2 = 1"
proof -
  have "\<forall>n \<in> set (common_names p1 p2). gaussian_similarity (angle_diff p1 p2 n) = 1"
    using assms(2) by (simp add: gaussian_similarity_def)
  then have "sum_list (map (\<lambda>name. gaussian_similarity (angle_diff p1 p2 name))
                 (common_names p1 p2))
      = real (length (common_names p1 p2))"
    by (rule sum_list_all_one)
  with assms(1) show ?thesis by (simp add: spec_similarity_score_def)
qed

lemma spec_score_zero: "common_names p1 p2 = [] \<Longrightarrow> spec_similarity_score p1 p2 = 0"
  by (simp add: spec_similarity_score_def)

text \<open>
  C8. For every pair of pose snapshots, \<^verbatim>\<open>calculate_similarity_score\<close> returns the arithmetic
  mean of \<open>exp (- diff\<^sup>2 / (2 * 30\<^sup>2))\<close> over exactly the angle names whose values are present in
  both snapshots, hence a value in \<open>[0, 1]\<close> that is 1 when all common differences are 0, and it
  returns 0, not 1, when no angle name has both values present.
\<close>

theorem similarity_score_spec:
  "calculate_similarity_score self p1 p2 = spec_similarity_score p1 p2
   \<and> 0 \<le> calculate_similarity_score self p1 p2 \<and> calculate_similarity_score self p1 p2 \<le> 1
   \<and> (common_names p1 p2 \<noteq> [] \<and> (\<forall>n \<in> set (common_names p1 p2). angle_diff p1 p2 n = 0)
        \<longrightarrow> calculate_similarity_score self p1 p2 = 1)
   \<and> (common_names p1 p2 = [] \<longrightarrow> calculate_similarity_score self p1 p2 = 0)"
  using spec_score_bounds [of p1 p2] spec_score_one [of p1 p2] spec_score_zero [of p1 p2]
  by (simp add: score_eq_spec)

theorem similarity_score_spec_witness:
  "calculate_similarity_score \<lparr>angle_threshold = 15\<rparr>
        \<lparr>landmarks = [], angles = [(left_elbow_angle, Some 150), (left_knee_angle, None)]\<rparr>
        \<lparr>landmarks = [], angles = [(left_elbow_angle, Some 150), (left_knee_angle, Some 20)]\<rparr>
     = 1
   \<and> calculate_similarity_score \<lparr>angle_threshold = 15\<rparr>
        \<lparr>landmarks = [], angles = [(left_knee_angle, None)]\<rparr>
        \<lparr>landmarks = [], angles = [(left_knee_angle, Some 20)]\<rparr> = 0"
  using similarity_score_spec [of "\<lparr>angle_threshold = 15\<rparr>"
        "\<lparr>landmarks = [], angles = [(left_elbow_angle, Some 150), (left_knee_angle, None)]\<rparr>"
        "\<lparr>landmarks = [], angles = [(left_elbow_angle, Some 150), (left_knee_angle, Some 20)]\<rparr>"]
    similarity_score_spec [of "\<lparr>angle_threshold = 15\<rparr>"
        "\<lparr>landmarks = [], angles = [(left_knee_angle, None)]\<rparr>"
        "\<lparr>landmarks = [], angles = [(left_knee_angle, Some 20)]\<rparr>"]
  by (simp add: common_names_def angle_diff_def dict_get_def name_defs)

section \<open>Properties of the registry\<close>

lemma map_of_update_same: "map_of (AList.update k v al) k = Some v"
  by (simp add: update_conv')

lemma components_get_update:
  "components_get (self\<lparr>components := AList.update category d (components self)\<rparr>) category = d"
  by (simp add: components_get_def update_conv')



lemma get_cases:
  obtains (fail) e where "get importer self category name = (Inl e, self)"
  | (plain) "get importer self category name =
       (Inr (case map_of (components_get self category) name of
               None \<Rightarrow> None | Some i \<Rightarrow> info_cls i), self)"
      "map_of (lazy_imports self) (instance_key category name) = None
       \<or> map_of (components_get self category) name = None
       \<or> (\<exists>i. map_of (components_get self category) name = Some i \<and> info_cls i \<noteq> None)"
  | (load) import_path class_name info c where
      "map_of (lazy_imports self) (instance_key category name) = Some (import_path, class_name)"
      "map_of (components_get self category) name = Some info"
      "info_cls info = None"
      "importer import_path class_name = Inr c"
      "get importer self category name =
        (Inr c, self\<lparr>components := AList.update category
              (AList.update name (info\<lparr>info_cls := c\<rparr>) (components_get self category))
              (components self)\<rparr>)"
proof (cases "map_of (lazy_imports self) (instance_key category name)")
  case None
  then show ?thesis
    using plain by (simp add: get_def Let_def split: option.splits)
next
  case (Some pc)
  obtain import_path class_name where pc: "pc = (import_path, class_name)" by (cases pc)
  show ?thesis
  proof (cases "map_of (components_get self category) name")
    case None
    with Some pc show ?thesis using plain by (simp add: get_def Let_def)
  next
    case i: (Some info)
    show ?thesis
    proof (cases "info_cls info")
      case (Some cl)
      with i \<open>map_of (lazy_imports self) (instance_key category name) = Some pc\<close> pc
      show ?thesis using plain by (simp add: get_def Let_def)
    next
      case None
      show ?thesis
      proof (cases "importer import_path class_name")
        case (Inl e)
        with None i \<open>map_of (lazy_imports self) (instance_key category name) = Some pc\<close> pc
        show ?thesis using fail by (simp add: get_def Let_def)
      next
        case (Inr c)
        with None i \<open>map_of (lazy_imports self) (instance_key category name) = Some pc\<close> pc
        show ?thesis
          using load [of import_path class_name info c]
          by (simp add: get_def Let_def components_get_update map_of_update_same)
      qed
    qed
  qed
qed






lemma components_get_in:
  "components_get self category \<noteq> [] \<Longrightarrow> (category, components_get self category) \<in> set (components self)"
  by (auto simp: components_get_def split: option.splits dest: map_of_SomeD)


lemma get_eager:
  "map_of (components_get self category) name = Some info \<Longrightarrow> info_cls info = Some c \<Longrightarrow>
   get importer self category name = (Inr (Some c), self)"
  by (simp add: get_def Let_def split: option.splits)

lemma components_get_register:
  "components_get (register self category name cls description is_default) category
     = AList.update name
         \<lparr>info_name = name, info_cls = Some cls, info_description = description,
          info_category = category, info_is_default = is_default\<rparr>
         (components_get self category)"
proof (cases "category \<in> fst ` set (components self)")
  case True
  then show ?thesis
    by (simp add: register_def Let_def components_get_def update_conv')
next
  case False
  then have "map_of (components self) category = None"
    by (simp add: map_of_eq_None_iff)
  with False show ?thesis
    by (simp add: register_def Let_def components_get_def update_conv')
qed




lemma wf_update_name:
  assumes "distinct (map fst d)" "\<forall>(n, i) \<in> set d. info_name i = n" "info_name info = name"
  shows "distinct (map fst (AList.update name info d))
         \<and> (\<forall>(n, i) \<in> set (AList.update name info d). info_name i = n)"
proof -
  have "set (AList.update name info d) \<subseteq> set d \<union> {(name, info)}"
    by (induction d) auto
  with assms show ?thesis by (auto simp: distinct_update)
qed

lemma set_update_subset: "set (AList.update k v al) \<subseteq> set al \<union> {(k, v)}"
  by (induction al) auto

lemma all_update:
  "\<forall>(c, d) \<in> set comps. P d \<Longrightarrow> P d' \<Longrightarrow> \<forall>(c, d) \<in> set (AList.update k d' comps). P d"
  using set_update_subset [of k d' comps] by auto



lemma wf_get:
  assumes wf: "wf_registry self" and g: "get importer self category name = (res, self')"
  shows "wf_registry self'"
proof (cases rule: get_cases [of importer self category name])
  case (fail e)
  with g wf show ?thesis by simp
next
  case plain
  from plain(1) g wf show ?thesis by simp
next
  case (load import_path class_name info c)
  define P :: "(string \<times> 'a ComponentInfo) list \<Rightarrow> bool"
    where "P = (\<lambda>d. distinct (map fst d) \<and> (\<forall>(n, i) \<in> set d. info_name i = n))"
  from load(5) g have s': "self' = self\<lparr>components := AList.update category
              (AList.update name (info\<lparr>info_cls := c\<rparr>) (components_get self category))
              (components self)\<rparr>" by simp
  have w0: "\<forall>(c, d) \<in> set (components self). P d"
    using wf by (simp add: wf_registry_def P_def)
  from load(2) have ne: "components_get self category \<noteq> []" by auto
  from w0 components_get_in [OF ne] have pd: "P (components_get self category)" by auto
  from load(2) have "(name, info) \<in> set (components_get self category)" by (rule map_of_SomeD)
  with pd have "info_name (info\<lparr>info_cls := c\<rparr>) = name" by (auto simp: P_def)
  with pd have "P (AList.update name (info\<lparr>info_cls := c\<rparr>) (components_get self category))"
    unfolding P_def by (intro wf_update_name) auto
  with w0 have "\<forall>(c, d) \<in> set (components self'). P d"
    unfolding s' using all_update [of "components self" P] by simp
  then show ?thesis by (simp add: wf_registry_def P_def)
qed







text \<open>A lazily registered default: the first call runs the loader and stores the class in the
  descriptor, which is what a second call then reads.\<close>

lemma get_default_lazy_example:
  "get_default (\<lambda>p n. if p = ''src.deps.heavy'' \<and> n = ''Heavy'' then Inr (Some ''HeavyCls'')
                        else Inl ImportError)
     (register_lazy (register new_registry ''detector'' ''A'' ''ClsA'' [] False)
        ''detector'' ''B'' ''src.deps.heavy'' ''Heavy'' [] True) ''detector''
   = (Inr (Some ''HeavyCls''),
      \<lparr>components =
         [(''detector'',
           [(''A'', \<lparr>info_name = ''A'', info_cls = Some ''ClsA'', info_description = [],
                    info_category = ''detector'', info_is_default = False\<rparr>),
            (''B'', \<lparr>info_name = ''B'', info_cls = Some ''HeavyCls'', info_description = [],
                    info_category = ''detector'', info_is_default = True\<rparr>)]),
          (''analyzer'', []), (''config'', [])],
       lazy_imports = [(''detector.B'', ''src.deps.heavy'', ''Heavy'')]\<rparr>)"
  by (simp add: get_default_def get_def components_get_def register_lazy_def register_def
        new_registry_def instance_key_def Let_def)

section \<open>Properties of the configuration\<close>

subsection \<open>\<^verbatim>\<open>set\<close>\<close>

lemma split_dot_nonempty: "split_dot s \<noteq> []"
  by (induction s) (auto split: list.splits)

lemma split_dot_no_dot: "CHR ''.'' \<notin> set s \<Longrightarrow> split_dot s = [s]"
  by (induction s) auto

lemma split_dot_append:
  "CHR ''.'' \<notin> set s \<Longrightarrow> split_dot (s @ ''.'' @ rest) = s # split_dot rest"
  by (induction s) auto

lemma hd_split_dot: "hd (split_dot s) = takeWhile (\<lambda>c. c \<noteq> CHR ''.'') s"
proof (induction s)
  case Nil
  then show ?case by simp
next
  case (Cons c cs)
  then show ?case using split_dot_nonempty [of cs] by (auto split: list.splits)
qed

lemma known_no_dot: "section \<in> set known_sections \<Longrightarrow> CHR ''.'' \<notin> set section"
  by (auto simp: known_sections_def)

lemma set_config_parts:
  assumes "sec \<in> set known_sections"
  shows "set_config env self (sec @ ''.'' @ field) v =
     (let attr = takeWhile (\<lambda>c. c \<noteq> CHR ''.'') field
      in if hasattr env (section_obj self sec) attr
         then (case setattr env (section_obj self sec) attr v of
                 Inl e \<Rightarrow> (Some e, self)
               | Inr obj \<Rightarrow> (None, put_section self sec obj))
         else (None, self))"
proof -
  have sp: "split_dot (sec @ ''.'' @ field) = sec # split_dot field"
    using split_dot_append [OF known_no_dot [OF assms]] .
  obtain p ps where ps: "split_dot field = p # ps"
    using split_dot_nonempty [of field] by (cases "split_dot field") auto
  have p: "p = takeWhile (\<lambda>c. c \<noteq> CHR ''.'') field"
    using hd_split_dot [of field] ps by simp
  show ?thesis
    unfolding set_config_def sp ps using assms by (simp add: Let_def p)
qed

text \<open>
  C10. For every dotted key \<^verbatim>\<open>section.field\<close> where the section is one of the five known
  configuration sections and the field (the part up to a further dot, if there is one) is not an
  existing attribute of that section, \<^verbatim>\<open>set\<close> returns without raising and leaves the whole
  configuration, every section and the custom map, unchanged; a key with no dot is always
  written into the custom map instead.
\<close>

theorem set_config_frame:
  "(sec \<in> set known_sections
      \<and> \<not> hasattr env (section_obj self sec) (takeWhile (\<lambda>c. c \<noteq> CHR ''.'') field)
    \<longrightarrow> set_config env self (sec @ ''.'' @ field) v = (None, self))
   \<and> (CHR ''.'' \<notin> set key
    \<longrightarrow> set_config env self key v
          = (None, self\<lparr>cfg_custom := AList.update (PStr key) v (cfg_custom self)\<rparr>))"
proof (intro conjI impI)
  assume "sec \<in> set known_sections
      \<and> \<not> hasattr env (section_obj self sec) (takeWhile (\<lambda>c. c \<noteq> CHR ''.'') field)"
  then show "set_config env self (sec @ ''.'' @ field) v = (None, self)"
    using set_config_parts [of sec env self field v] by (simp add: Let_def)
next
  assume "CHR ''.'' \<notin> set key"
  then show "set_config env self key v
          = (None, self\<lparr>cfg_custom := AList.update (PStr key) v (cfg_custom self)\<rparr>)"
    by (simp add: set_config_def split_dot_no_dot)
qed

text \<open>The analyzer section has no attribute \<^verbatim>\<open>tolerance\<close>; the key \<^verbatim>\<open>theme\<close> has no dot.\<close>

theorem set_config_frame_witness:
  "''analyzer'' \<in> set known_sections
   \<and> \<not> hasattr example_env (section_obj new_config ''analyzer'')
         (takeWhile (\<lambda>c. c \<noteq> CHR ''.'') ''tolerance'')
   \<and> set_config example_env new_config ''analyzer.tolerance'' (PFloat 20) = (None, new_config)
   \<and> CHR ''.'' \<notin> set ''theme''
   \<and> set_config example_env new_config ''theme'' (PStr ''dark'')
       = (None, new_config\<lparr>cfg_custom := [(PStr ''theme'', PStr ''dark'')]\<rparr>)"
proof -
  have k: "''analyzer'' \<in> set known_sections" by (simp add: known_sections_def)
  have h: "\<not> hasattr example_env (section_obj new_config ''analyzer'')
         (takeWhile (\<lambda>c. c \<noteq> CHR ''.'') ''tolerance'')"
    by (simp add: hasattr_def example_env_def object_attrs_def section_obj_def new_config_def
          AnalyzerConfig_def)
  have d: "CHR ''.'' \<notin> set ''theme''" by simp
  have a: "set_config example_env new_config (''analyzer'' @ ''.'' @ ''tolerance'') (PFloat 20)
      = (None, new_config)"
    using set_config_frame [where sec = "''analyzer''" and env = example_env
        and self = new_config and field = "''tolerance''" and v = "PFloat 20"]
      k h by blast
  have b: "set_config example_env new_config ''theme'' (PStr ''dark'')
       = (None, new_config\<lparr>cfg_custom := AList.update (PStr ''theme'') (PStr ''dark'')
             (cfg_custom new_config)\<rparr>)"
    using set_config_frame [where env = example_env and self = new_config
        and key = "''theme''" and v = "PStr ''dark''"] d by blast
  show ?thesis using k h d a b by (simp add: new_config_def)
qed

subsection \<open>\<^verbatim>\<open>load_from_file\<close>\<close>




























section \<open>Properties of the dependency container\<close>

lemma initialize_cpu:
  "\<not> mp_use_gpu d \<Longrightarrow>
   initialize env d =
     (case env False of
        Inr h \<Rightarrow> (True, d\<lparr>mp_detector := Some h\<rparr>, [False])
      | Inl e \<Rightarrow> (False, d, [False]))"
  by (subst initialize.simps) (simp split: sum.splits)

lemma initialize_gpu:
  "mp_use_gpu d \<Longrightarrow>
   initialize env d =
     (case env True of
        Inr h \<Rightarrow> (True, d\<lparr>mp_detector := Some h\<rparr>, [True])
      | Inl e \<Rightarrow>
         (case env False of
            Inr h \<Rightarrow> (True, d\<lparr>mp_use_gpu := False, mp_detector := Some h\<rparr>, [True, False])
          | Inl e' \<Rightarrow> (False, d\<lparr>mp_use_gpu := False\<rparr>, [True, False])))"
  by (subst initialize.simps) (simp add: initialize_cpu split: sum.splits)

lemma initialize_attempts:
  "case initialize env d of (ok, d', tried) \<Rightarrow>
     (tried = [mp_use_gpu d] \<or> (mp_use_gpu d \<and> tried = [True, False]))
     \<and> (tried = [True, False] \<longleftrightarrow> mp_use_gpu d \<and> isl (env True))
     \<and> (ok \<longleftrightarrow> \<not> isl (env (last tried)))
     \<and> (ok \<longrightarrow> mp_detector d' \<noteq> None)
     \<and> (\<not> ok \<longrightarrow> mp_detector d' = mp_detector d \<and> \<not> mp_use_gpu d')"
proof (cases "mp_use_gpu d")
  case True
  then show ?thesis
    by (cases "env True"; cases "env False") (simp_all add: initialize_gpu)
next
  case False
  then show ?thesis
    by (cases "env False") (simp_all add: initialize_cpu)
qed

lemma factory_detector:
  assumes "get importer reg ''detector'' name = (Inr (Some MediaPipeHeavyDetectorClass), reg')"
  shows "factory env importer reg ''detector'' name =
     (case initialize env \<lparr>mp_model_path = ''models/pose_landmarker_heavy.task'',
       mp_min_detection_confidence = 1 / 2, mp_min_tracking_confidence = 1 / 2,
       mp_use_gpu = True, mp_detector = None\<rparr> of
        (ok, d', tried) \<Rightarrow> (Inr (DetectorInstance d'), reg', tried))"
  using assms by (simp add: factory_def)

lemma factory_not_found:
  assumes "get importer reg category name = (Inr None, reg')"
  shows "factory env importer reg category name = (Inl ValueError, reg', [])"
  using assms by (simp add: factory_def)

lemma get_detector_first_access:
  assumes "map_of (deps_instances self) (instance_key ''detector'' name) = None"
  shows "get_detector env importer self (Some name) =
     (case factory env importer (deps_registry self) ''detector'' name of
        (Inl e, reg', tried) \<Rightarrow>
          (Inl e,
           self\<lparr>deps_registry := reg',
                deps_instances := AList.update (instance_key ''detector'' name)
                   \<lparr>lazy_category = ''detector'', lazy_name = name, lazy_instance = None\<rparr>
                   (deps_instances self)\<rparr>,
           tried)
      | (Inr inst, reg', tried) \<Rightarrow>
          (Inr inst,
           self\<lparr>deps_registry := reg',
                deps_instances := AList.update (instance_key ''detector'' name)
                   \<lparr>lazy_category = ''detector'', lazy_name = name, lazy_instance = Some inst\<rparr>
                   (deps_instances self)\<rparr>,
           tried))"
  using assms
  by (simp add: get_detector_def lazy_get_def Let_def split: prod.splits sum.splits)

text \<open>
  C5, as the code has it. The initialization hook of the detector catches its own failure and,
  when GPU acceleration was enabled, retries exactly once with the GPU disabled; it tries no
  third time, and it returns false when its last attempt fails. The container's \<^verbatim>\<open>get\<close> drops
  that flag: on first access, for a name under which the registry holds the detector class, it
  returns the constructed detector after one or two attempts, and when both attempts fail it
  returns that detector uninitialized, raising nothing. When the registry holds nothing under
  the name, the factory raises \<^verbatim>\<open>ValueError\<close> to the caller and no attempt is made.
\<close>

theorem detector_construction:
  "(case initialize env d of (ok, d', tried) \<Rightarrow>
      (tried = [mp_use_gpu d] \<or> (mp_use_gpu d \<and> tried = [True, False]))
      \<and> (tried = [True, False] \<longleftrightarrow> mp_use_gpu d \<and> isl (env True))
      \<and> (ok \<longleftrightarrow> \<not> isl (env (last tried)))
      \<and> (ok \<longrightarrow> mp_detector d' \<noteq> None)
      \<and> (\<not> ok \<longrightarrow> mp_detector d' = mp_detector d \<and> \<not> mp_use_gpu d'))
   \<and> (\<forall>reg'. map_of (deps_instances self) (instance_key ''detector'' name) = None
          \<and> get importer (deps_registry self) ''detector'' name
               = (Inr (Some MediaPipeHeavyDetectorClass), reg')
        \<longrightarrow> (\<exists>d' self' tried.
               get_detector env importer self (Some name)
                 = (Inr (DetectorInstance d'), self', tried)
               \<and> (tried = [True] \<or> tried = [True, False])
               \<and> (isl (env True) \<and> isl (env False)
                    \<longrightarrow> tried = [True, False] \<and> mp_detector d' = None \<and> \<not> mp_use_gpu d')))
   \<and> (\<forall>reg'. map_of (deps_instances self) (instance_key ''detector'' name) = None
          \<and> get importer (deps_registry self) ''detector'' name = (Inr None, reg')
        \<longrightarrow> (\<exists>self'. get_detector env importer self (Some name) = (Inl ValueError, self', [])))"
proof (intro conjI allI impI)
  show "case initialize env d of (ok, d', tried) \<Rightarrow>
      (tried = [mp_use_gpu d] \<or> (mp_use_gpu d \<and> tried = [True, False]))
      \<and> (tried = [True, False] \<longleftrightarrow> mp_use_gpu d \<and> isl (env True))
      \<and> (ok \<longleftrightarrow> \<not> isl (env (last tried)))
      \<and> (ok \<longrightarrow> mp_detector d' \<noteq> None)
      \<and> (\<not> ok \<longrightarrow> mp_detector d' = mp_detector d \<and> \<not> mp_use_gpu d')"
    by (rule initialize_attempts)
next
  fix reg'
  assume a: "map_of (deps_instances self) (instance_key ''detector'' name) = None
          \<and> get importer (deps_registry self) ''detector'' name
               = (Inr (Some MediaPipeHeavyDetectorClass), reg')"
  define d0 where "d0 = \<lparr>mp_model_path = ''models/pose_landmarker_heavy.task'',
       mp_min_detection_confidence = 1 / 2, mp_min_tracking_confidence = 1 / 2,
       mp_use_gpu = True, mp_detector = None\<rparr>"
  obtain ok d' tried where i: "initialize env d0 = (ok, d', tried)"
    by (cases "initialize env d0") auto
  have f: "factory env importer (deps_registry self) ''detector'' name
      = (Inr (DetectorInstance d'), reg', tried)"
    using factory_detector [where importer = importer and reg = "deps_registry self"
        and name = name and reg' = reg' and env = env] a i
    by (simp add: d0_def)
  have g: "get_detector env importer self (Some name) =
     (Inr (DetectorInstance d'),
           self\<lparr>deps_registry := reg',
                deps_instances := AList.update (instance_key ''detector'' name)
                   \<lparr>lazy_category = ''detector'', lazy_name = name,
                    lazy_instance = Some (DetectorInstance d')\<rparr>
                   (deps_instances self)\<rparr>,
           tried)"
    using get_detector_first_access [where self = self and name = name and env = env
        and importer = importer] a f by simp
  have t: "(tried = [True] \<or> tried = [True, False])
     \<and> (isl (env True) \<and> isl (env False)
           \<longrightarrow> tried = [True, False] \<and> mp_detector d' = None \<and> \<not> mp_use_gpu d')"
    using initialize_attempts [where env = env and d = d0] i by (auto simp: d0_def)
  show "\<exists>d' self' tried.
               get_detector env importer self (Some name)
                 = (Inr (DetectorInstance d'), self', tried)
               \<and> (tried = [True] \<or> tried = [True, False])
               \<and> (isl (env True) \<and> isl (env False)
                    \<longrightarrow> tried = [True, False] \<and> mp_detector d' = None \<and> \<not> mp_use_gpu d')"
    using g t by blast
next
  fix reg'
  assume a: "map_of (deps_instances self) (instance_key ''detector'' name) = None
          \<and> get importer (deps_registry self) ''detector'' name = (Inr None, reg')"
  then have f: "factory env importer (deps_registry self) ''detector'' name
      = (Inl ValueError, reg', [])"
    by (simp add: factory_not_found)
  show "\<exists>self'. get_detector env importer self (Some name) = (Inl ValueError, self', [])"
    using get_detector_first_access [where self = self and name = name and env = env
        and importer = importer] a f by simp
qed

lemma heavy_deps_get:
  "get importer (deps_registry heavy_deps) ''detector'' ''MediaPipe-Heavy''
     = (Inr (Some MediaPipeHeavyDetectorClass), deps_registry heavy_deps)"
proof -
  have c: "components_get (deps_registry heavy_deps) ''detector''
      = [(''MediaPipe-Heavy'', \<lparr>info_name = ''MediaPipe-Heavy'',
            info_cls = Some MediaPipeHeavyDetectorClass, info_description = [],
            info_category = ''detector'', info_is_default = False\<rparr>)]"
    by (simp add: heavy_deps_def register_detector_def new_deps_def components_get_register)
       (simp add: components_get_def new_registry_def)
  show ?thesis
    by (rule get_eager [where info = "\<lparr>info_name = ''MediaPipe-Heavy'',
            info_cls = Some MediaPipeHeavyDetectorClass, info_description = [],
            info_category = ''detector'', info_is_default = False\<rparr>"]) (simp_all add: c)
qed

lemma heavy_deps_fresh:
  "map_of (deps_instances heavy_deps) (instance_key ''detector'' ''MediaPipe-Heavy'') = None"
  by (simp add: heavy_deps_def register_detector_def new_deps_def)

text \<open>Both delegates fail: the detector comes back after the two attempts, uninitialized.\<close>

theorem detector_construction_witness:
  "\<exists>d' self' tried.
      get_detector (\<lambda>gpu. Inl RuntimeError) (\<lambda>p n. Inl ImportError) heavy_deps
          (Some ''MediaPipe-Heavy'')
        = (Inr (DetectorInstance d'), self', tried)
      \<and> tried = [True, False] \<and> mp_detector d' = None \<and> \<not> mp_use_gpu d'"
proof -
  have "\<exists>d' self' tried.
      get_detector (\<lambda>gpu. Inl RuntimeError) (\<lambda>p n. Inl ImportError) heavy_deps
          (Some ''MediaPipe-Heavy'')
        = (Inr (DetectorInstance d'), self', tried)
      \<and> (tried = [True] \<or> tried = [True, False])
      \<and> (isl ((\<lambda>gpu. Inl RuntimeError :: py_error + nat) True)
            \<and> isl ((\<lambda>gpu. Inl RuntimeError :: py_error + nat) False)
          \<longrightarrow> tried = [True, False] \<and> mp_detector d' = None \<and> \<not> mp_use_gpu d')"
    by (rule detector_construction [where env = "\<lambda>gpu. Inl RuntimeError"
          and importer = "\<lambda>p n. Inl ImportError" and self = heavy_deps
          and name = "''MediaPipe-Heavy''", THEN conjunct2, THEN conjunct1, rule_format])
       (simp add: heavy_deps_fresh heavy_deps_get)
  then show ?thesis by auto
qed

text \<open>
  C5 as stated fails. With both delegates failing, \<^verbatim>\<open>get_detector("MediaPipe-Heavy")\<close> returns
  a detector whose \<^verbatim>\<open>_detector\<close> is \<^verbatim>\<open>None\<close> instead of failing; and under a name the registry
  does not hold, the factory fails at once, with no retry.
\<close>

theorem get_detector_uninitialized_counterexample:
  "fst (get_detector (\<lambda>gpu. Inl RuntimeError) (\<lambda>p n. Inl ImportError) heavy_deps
          (Some ''MediaPipe-Heavy''))
     = Inr (DetectorInstance \<lparr>mp_model_path = ''models/pose_landmarker_heavy.task'',
         mp_min_detection_confidence = 1 / 2, mp_min_tracking_confidence = 1 / 2,
         mp_use_gpu = False, mp_detector = None\<rparr>)
   \<and> snd (snd (get_detector (\<lambda>gpu. Inl RuntimeError) (\<lambda>p n. Inl ImportError) heavy_deps
          (Some ''MediaPipe-Heavy''))) = [True, False]
   \<and> fst (get_detector (\<lambda>gpu. Inl RuntimeError) (\<lambda>p n. Inl ImportError) heavy_deps
          (Some ''MediaPipeHeavyDetector'')) = Inl ValueError
   \<and> snd (snd (get_detector (\<lambda>gpu. Inl RuntimeError) (\<lambda>p n. Inl ImportError) heavy_deps
          (Some ''MediaPipeHeavyDetector''))) = []"
proof -
  have f: "factory (\<lambda>gpu. Inl RuntimeError) (\<lambda>p n. Inl ImportError) (deps_registry heavy_deps)
        ''detector'' ''MediaPipe-Heavy''
      = (Inr (DetectorInstance \<lparr>mp_model_path = ''models/pose_landmarker_heavy.task'',
         mp_min_detection_confidence = 1 / 2, mp_min_tracking_confidence = 1 / 2,
         mp_use_gpu = False, mp_detector = None\<rparr>), deps_registry heavy_deps, [True, False])"
    by (simp add: factory_detector [OF heavy_deps_get] initialize_gpu)
  have n: "get (\<lambda>p n. Inl ImportError) (deps_registry heavy_deps) ''detector''
        ''MediaPipeHeavyDetector'' = (Inr None, deps_registry heavy_deps)"
    by (simp add: get_def Let_def heavy_deps_def register_detector_def new_deps_def
          components_get_register)
       (simp add: components_get_def new_registry_def register_def Let_def)
  have f2: "factory (\<lambda>gpu. Inl RuntimeError) (\<lambda>p n. Inl ImportError) (deps_registry heavy_deps)
        ''detector'' ''MediaPipeHeavyDetector'' = (Inl ValueError, deps_registry heavy_deps, [])"
    by (rule factory_not_found [OF n])
  have fresh2: "map_of (deps_instances heavy_deps)
      (instance_key ''detector'' ''MediaPipeHeavyDetector'') = None"
    by (simp add: heavy_deps_def register_detector_def new_deps_def)
  show ?thesis
    by (simp add: get_detector_first_access [OF heavy_deps_fresh]
          get_detector_first_access [OF fresh2] f f2)
qed

subsection \<open>Concurrent first access\<close>

text \<open>One call after the other: one object, one factory call, the same instance for both.\<close>

lemma run_sequential:
  "run ''detector.MediaPipe-Heavy'' sequential_schedule (initial_conf 2) =
     Some \<lparr>instances_dict = [(''detector.MediaPipe-Heavy'', 0)],
            store = [\<lparr>cell_instance = Some 1, cell_lock = None\<rparr>],
            factory_calls = 1,
            pcs = [Done (Some 1), Done (Some 1)]\<rparr>"
  by (simp add: sequential_schedule_def initial_conf_def thread_step_def numeral_2_eq_2)


text \<open>\<^verbatim>\<open>LazyInstance.get\<close> on its own is safe: however the threads that share one object are
  interleaved, the factory runs at most once and every caller returns the first instance.\<close>

lemma dcl_inv_initial: "dcl_inv (shared_cell_conf key n)"
  by (simp add: dcl_inv_def shared_cell_conf_def)

text \<open>A step that leaves the cell alone keeps every other thread's condition.\<close>

lemma pcs_update_ok:
  assumes "\<forall>u < length ps. pc_ok cell u (ps ! u)" and "pc_ok cell' t p"
    and "\<And>u q. u \<noteq> t \<Longrightarrow> pc_ok cell u q \<Longrightarrow> pc_ok cell' u q"
  shows "\<forall>u < length (ps[t := p]). pc_ok cell' u (ps[t := p] ! u)"
proof (intro allI impI)
  fix u
  assume "u < length (ps[t := p])"
  then have u: "u < length ps" by simp
  show "pc_ok cell' u (ps[t := p] ! u)"
  proof (cases "u = t")
    case True
    with u assms(2) show ?thesis by simp
  next
    case False
    with u assms(1) have "pc_ok cell u (ps ! u)" by simp
    with False have "pc_ok cell' u (ps ! u)" by (rule assms(3))
    with False show ?thesis by simp
  qed
qed

lemma other_lock_taken:
  "u \<noteq> t \<Longrightarrow> cell_lock cell = None \<Longrightarrow> pc_ok cell u q \<Longrightarrow>
   pc_ok (cell\<lparr>cell_lock := Some t\<rparr>) u q"
  by (cases q) auto

lemma other_constructed:
  "u \<noteq> t \<Longrightarrow> cell_lock cell = Some t \<Longrightarrow> cell_instance cell = None \<Longrightarrow> pc_ok cell u q \<Longrightarrow>
   pc_ok (cell\<lparr>cell_instance := Some 1\<rparr>) u q"
  by (cases q) auto

lemma other_released:
  "u \<noteq> t \<Longrightarrow> cell_lock cell = Some t \<Longrightarrow> pc_ok cell u q \<Longrightarrow>
   pc_ok (cell\<lparr>cell_lock := None\<rparr>) u q"
  by (cases q) auto

lemma dcl_inv_step:
  assumes inv: "dcl_inv c" and st: "thread_step key t c = Some c'"
  shows "dcl_inv c'"
proof -
  from st have tl: "t < length (pcs c)"
    by (simp add: thread_step_def split: if_splits)
  from inv have len: "length (store c) = 1" by (simp add: dcl_inv_def)
  define cell where "cell = store c ! 0"
  from inv have cnt: "(cell_instance cell = None \<and> factory_calls c = 0)
           \<or> (cell_instance cell = Some 1 \<and> factory_calls c = 1)"
    by (simp add: dcl_inv_def cell_def)
  from inv have all: "\<forall>u < length (pcs c). pc_ok cell u (pcs c ! u)"
    by (simp add: dcl_inv_def cell_def)
  from all tl have me: "pc_ok cell t (pcs c ! t)" by simp
  show ?thesis
  proof (cases "pcs c ! t")
    case CheckKey
    with me show ?thesis by simp
  next
    case StoreLazy
    with me show ?thesis by simp
  next
    case LoadLazy
    with me show ?thesis by simp
  next
    case (Check1 a)
    with me have a: "a = 0" by simp
    define p where "p = (if cell_instance cell = None then Acquire 0 else Return 0)"
    from st Check1 tl len a have c': "c' = c\<lparr>pcs := (pcs c)[t := p]\<rparr>"
      by (simp add: thread_step_def p_def cell_def)
    have "pc_ok cell t p" using cnt by (auto simp: p_def)
    with all have "\<forall>u < length ((pcs c)[t := p]). pc_ok cell u ((pcs c)[t := p] ! u)"
      by (rule pcs_update_ok) simp
    with len cnt show ?thesis by (simp add: dcl_inv_def c' cell_def)
  next
    case (Acquire a)
    with me have a: "a = 0" by simp
    from st Acquire tl len a have free: "cell_lock cell = None"
      by (simp add: thread_step_def cell_def split: if_splits)
    from st Acquire tl len a free
    have c': "c' = c\<lparr>store := (store c)[0 := cell\<lparr>cell_lock := Some t\<rparr>],
                           pcs := (pcs c)[t := Check2 0]\<rparr>"
      by (simp add: thread_step_def cell_def)
    have "pc_ok (cell\<lparr>cell_lock := Some t\<rparr>) t (Check2 0)" by simp
    with all have "\<forall>u < length ((pcs c)[t := Check2 0]).
        pc_ok (cell\<lparr>cell_lock := Some t\<rparr>) u ((pcs c)[t := Check2 0] ! u)"
      by (rule pcs_update_ok) (rule other_lock_taken [OF _ free])
    with len cnt show ?thesis by (simp add: dcl_inv_def c')
  next
    case (Check2 a)
    with me have a: "a = 0" and lk: "cell_lock cell = Some t" by simp_all
    define p where "p = (if cell_instance cell = None then Construct 0 else Release 0)"
    from st Check2 tl len a have c': "c' = c\<lparr>pcs := (pcs c)[t := p]\<rparr>"
      by (simp add: thread_step_def p_def cell_def)
    have "pc_ok cell t p" using cnt lk by (auto simp: p_def)
    with all have "\<forall>u < length ((pcs c)[t := p]). pc_ok cell u ((pcs c)[t := p] ! u)"
      by (rule pcs_update_ok) simp
    with len cnt show ?thesis by (simp add: dcl_inv_def c' cell_def)
  next
    case (Construct a)
    with me have a: "a = 0" and lk: "cell_lock cell = Some t"
      and none: "cell_instance cell = None" by simp_all
    from cnt none have fc: "factory_calls c = 0" by simp
    from st Construct tl len a fc
    have c': "c' = c\<lparr>factory_calls := 1,
                           store := (store c)[0 := cell\<lparr>cell_instance := Some 1\<rparr>],
                           pcs := (pcs c)[t := Release 0]\<rparr>"
      by (simp add: thread_step_def cell_def)
    have "pc_ok (cell\<lparr>cell_instance := Some 1\<rparr>) t (Release 0)" using lk by simp
    with all have "\<forall>u < length ((pcs c)[t := Release 0]).
        pc_ok (cell\<lparr>cell_instance := Some 1\<rparr>) u ((pcs c)[t := Release 0] ! u)"
      by (rule pcs_update_ok) (rule other_constructed [OF _ lk none])
    with len show ?thesis by (simp add: dcl_inv_def c')
  next
    case (Release a)
    with me have a: "a = 0" and lk: "cell_lock cell = Some t"
      and some: "cell_instance cell = Some 1" by simp_all
    from st Release tl len a
    have c': "c' = c\<lparr>store := (store c)[0 := cell\<lparr>cell_lock := None\<rparr>],
                           pcs := (pcs c)[t := Return 0]\<rparr>"
      by (simp add: thread_step_def cell_def)
    have "pc_ok (cell\<lparr>cell_lock := None\<rparr>) t (Return 0)" using some by simp
    with all have "\<forall>u < length ((pcs c)[t := Return 0]).
        pc_ok (cell\<lparr>cell_lock := None\<rparr>) u ((pcs c)[t := Return 0] ! u)"
      by (rule pcs_update_ok) (rule other_released [OF _ lk])
    with len cnt show ?thesis by (simp add: dcl_inv_def c')
  next
    case (Return a)
    with me have a: "a = 0" and some: "cell_instance cell = Some 1" by simp_all
    from st Return tl len a some
    have c': "c' = c\<lparr>pcs := (pcs c)[t := Done (Some 1)]\<rparr>"
      by (simp add: thread_step_def cell_def)
    have "pc_ok cell t (Done (Some 1))" by simp
    with all have "\<forall>u < length ((pcs c)[t := Done (Some 1)]).
        pc_ok cell u ((pcs c)[t := Done (Some 1)] ! u)"
      by (rule pcs_update_ok) simp
    with len cnt show ?thesis by (simp add: dcl_inv_def c' cell_def)
  next
    case (Done r)
    with st tl show ?thesis by (simp add: thread_step_def)
  qed
qed

lemma dcl_inv_run: "dcl_inv c \<Longrightarrow> run key ts c = Some c' \<Longrightarrow> dcl_inv c'"
proof (induction ts arbitrary: c)
  case Nil
  then show ?case by simp
next
  case (Cons t ts)
  from Cons.prems(2) obtain c1 where s: "thread_step key t c = Some c1"
    and r: "run key ts c1 = Some c'"
    by (auto split: option.splits)
  from dcl_inv_step [OF Cons.prems(1) s] have "dcl_inv c1" .
  then show ?case using r by (rule Cons.IH)
qed

lemma lazy_get_at_most_once:
  assumes "run key ts (shared_cell_conf key n) = Some c"
  shows "factory_calls c \<le> 1
         \<and> (\<forall>t < length (pcs c). \<forall>r. pcs c ! t = Done r \<longrightarrow> r = Some 1)"
proof -
  from dcl_inv_run [OF dcl_inv_initial assms] have i: "dcl_inv c" .
  then have "factory_calls c \<le> 1" by (auto simp: dcl_inv_def)
  moreover have "\<forall>t < length (pcs c). \<forall>r. pcs c ! t = Done r \<longrightarrow> r = Some 1"
  proof (intro allI impI)
    fix t r
    assume "t < length (pcs c)" "pcs c ! t = Done r"
    with i have "pc_ok (store c ! 0) t (Done r)" by (auto simp: dcl_inv_def)
    then show "r = Some 1" by simp
  qed
  ultimately show ?thesis by simp
qed

text \<open>
  C9 fails on the code. Two threads call \<^verbatim>\<open>get_detector("MediaPipe-Heavy")\<close> on a fresh
  container. Both evaluate \<^verbatim>\<open>key not in self._instances\<close> before either stores its
  \<^verbatim>\<open>LazyInstance\<close>; each then stores and loads an object of its own, and the lock inside each
  object has nothing to exclude. The factory runs twice and the callers hold different
  instances.
\<close>

theorem get_detector_race:
  "run ''detector.MediaPipe-Heavy'' racing_schedule (initial_conf 2) =
     Some \<lparr>instances_dict = [(''detector.MediaPipe-Heavy'', 1)],
            store = [\<lparr>cell_instance = Some 1, cell_lock = None\<rparr>,
                     \<lparr>cell_instance = Some 2, cell_lock = None\<rparr>],
            factory_calls = 2,
            pcs = [Done (Some 1), Done (Some 2)]\<rparr>"
  by (simp add: racing_schedule_def initial_conf_def thread_step_def numeral_2_eq_2)

end
